theory Spec2Isabelle
  imports Complex_Main "HOL-Library.Word"
begin

unbundle bit_operations_syntax

section \<open>Symbolic formulas (drake/common/symbolic_formula.cc)\<close>

subsection \<open>External collaborators\<close>

text \<open>
  The formula code consumes \<open>Expression\<close>, \<open>Variables\<close>, \<open>Environment\<close>,
  \<open>hash_combine\<close> and \<open>std::hash<string>\<close> only through a handful of operations; their
  implementations live in other files. They are parameters of the model: the type
  \<open>'e\<close> stands for \<open>Expression\<close>, and a record collects the operations called by
  symbolic_formula.cc.

  \<open>size_t\<close> is a 64-bit word. A \<open>Variable\<close> is represented by its identifier, a
  \<open>Variables\<close> value by the set of its members, an \<open>Environment\<close> by a partial map
  from variables to numbers. An exception is the left summand of a sum type.
\<close>

type_synonym size_t = "64 word"
type_synonym Variable = nat
type_synonym Variables = "Variable set"

text \<open>
  \<open>Expression::Evaluate\<close> returns a \<open>double\<close>, and the relational cells compare two
  of them with the operators of C++. A \<open>double\<close> is not-a-number, an infinity or a
  finite value (its rounding is that of the expression code and plays no part here;
  the two signed zeros, which compare equal, are one value). Every ordered comparison
  with NaN is false, \<open>==\<close> with NaN is false and \<open>!=\<close> with NaN is true.
\<close>

datatype double = NaN | MinusInfinity | Finite real | PlusInfinity

fun double_less :: "double \<Rightarrow> double \<Rightarrow> bool" where
  "double_less NaN b = False"
| "double_less a NaN = False"
| "double_less a MinusInfinity = False"
| "double_less MinusInfinity b = True"
| "double_less PlusInfinity b = False"
| "double_less (Finite a) PlusInfinity = True"
| "double_less (Finite a) (Finite b) = (a < b)"

definition double_eq :: "double \<Rightarrow> double \<Rightarrow> bool" where
  "double_eq a b \<longleftrightarrow> a \<noteq> NaN \<and> b \<noteq> NaN \<and> a = b"

definition double_neq :: "double \<Rightarrow> double \<Rightarrow> bool" where
  "double_neq a b \<longleftrightarrow> \<not> double_eq a b"

definition double_less_eq :: "double \<Rightarrow> double \<Rightarrow> bool" where
  "double_less_eq a b \<longleftrightarrow> double_less a b \<or> double_eq a b"

definition double_greater :: "double \<Rightarrow> double \<Rightarrow> bool" where
  "double_greater a b \<longleftrightarrow> double_less b a"

definition double_greater_eq :: "double \<Rightarrow> double \<Rightarrow> bool" where
  "double_greater_eq a b \<longleftrightarrow> double_less_eq b a"

type_synonym Environment = "Variable \<rightharpoonup> double"

datatype runtime_error = runtime_error string

datatype FormulaKind =
  KFalse | KTrue | KEq | KNeq | KGt | KGeq | KLt | KLeq | KAnd | KOr | KNot | KForall

record 'e collaborators =
  hash_combine :: "size_t \<Rightarrow> size_t \<Rightarrow> size_t"
  hash_string :: "string \<Rightarrow> size_t"
  kind_to_size_t :: "FormulaKind \<Rightarrow> size_t"
  Expression_get_hash :: "'e \<Rightarrow> size_t"
  Expression_EqualTo :: "'e \<Rightarrow> 'e \<Rightarrow> bool"
  Expression_GetVariables :: "'e \<Rightarrow> Variables"
  Expression_Evaluate :: "'e \<Rightarrow> Environment \<Rightarrow> runtime_error + double"
  Variables_get_hash :: "Variables \<Rightarrow> size_t"

subsection \<open>Formula handles and cells\<close>

text \<open>
  A \<open>Formula\<close> is a \<open>shared_ptr<FormulaCell>\<close>. Cells are immutable, so a handle is
  modelled by the address it points to (\<open>ptr\<close>) together with the cell found there:
  the precomputed hash field (\<open>cell_hash\<close>) and the payload of the cell's class. The class of the
  cell (one constructor per subclass of \<open>FormulaCell\<close>) fixes its \<open>kind_\<close> field.
\<close>

datatype 'e Formula =
    FormulaTrue (ptr: nat) (cell_hash: size_t)
  | FormulaFalse (ptr: nat) (cell_hash: size_t)
  | FormulaEq (ptr: nat) (cell_hash: size_t) (cell_e1: 'e) (cell_e2: 'e)
  | FormulaNeq (ptr: nat) (cell_hash: size_t) (cell_e1: 'e) (cell_e2: 'e)
  | FormulaGt (ptr: nat) (cell_hash: size_t) (cell_e1: 'e) (cell_e2: 'e)
  | FormulaGeq (ptr: nat) (cell_hash: size_t) (cell_e1: 'e) (cell_e2: 'e)
  | FormulaLt (ptr: nat) (cell_hash: size_t) (cell_e1: 'e) (cell_e2: 'e)
  | FormulaLeq (ptr: nat) (cell_hash: size_t) (cell_e1: 'e) (cell_e2: 'e)
  | FormulaAnd (ptr: nat) (cell_hash: size_t) (cell_f1: "'e Formula") (cell_f2: "'e Formula")
  | FormulaOr (ptr: nat) (cell_hash: size_t) (cell_f1: "'e Formula") (cell_f2: "'e Formula")
  | FormulaNot (ptr: nat) (cell_hash: size_t) (cell_f: "'e Formula")
  | FormulaForall (ptr: nat) (cell_hash: size_t) (cell_vars: Variables) (cell_f: "'e Formula")

fun get_kind :: "'e Formula \<Rightarrow> FormulaKind" where
  "get_kind (FormulaTrue p h) = KTrue"
| "get_kind (FormulaFalse p h) = KFalse"
| "get_kind (FormulaEq p h e1 e2) = KEq"
| "get_kind (FormulaNeq p h e1 e2) = KNeq"
| "get_kind (FormulaGt p h e1 e2) = KGt"
| "get_kind (FormulaGeq p h e1 e2) = KGeq"
| "get_kind (FormulaLt p h e1 e2) = KLt"
| "get_kind (FormulaLeq p h e1 e2) = KLeq"
| "get_kind (FormulaAnd p h f1 f2) = KAnd"
| "get_kind (FormulaOr p h f1 f2) = KOr"
| "get_kind (FormulaNot p h f) = KNot"
| "get_kind (FormulaForall p h vars f) = KForall"

definition get_hash :: "'e Formula \<Rightarrow> size_t" where
  "get_hash f = cell_hash f"

text \<open>
  The base-class constructor \<open>FormulaCell::FormulaCell(k, hash)\<close> stores
  \<open>hash_combine(static_cast<size_t>(kind_), hash)\<close>.
\<close>

definition FormulaCell_hash :: "'e collaborators \<Rightarrow> FormulaKind \<Rightarrow> size_t \<Rightarrow> size_t" where
  "FormulaCell_hash X k h = hash_combine X (kind_to_size_t X k) h"

subsection \<open>The heap of cells\<close>

text \<open>
  \<open>make_shared\<close> allocates a new cell. The heap is the list of the cells allocated
  so far, newest first; a new cell gets the next unused address. The two
  function-local statics of \<open>Formula::True()\<close> and \<open>Formula::False()\<close> occupy the
  addresses 0 and 1 and are in the heap from the start.
\<close>

type_synonym 'e heap = "'e Formula list"

definition True_f :: "'e collaborators \<Rightarrow> 'e Formula" where
  "True_f X = FormulaTrue 0 (FormulaCell_hash X KTrue (hash_string X ''True''))"

definition False_f :: "'e collaborators \<Rightarrow> 'e Formula" where
  "False_f X = FormulaFalse 1 (FormulaCell_hash X KFalse (hash_string X ''False''))"

definition initial_heap :: "'e collaborators \<Rightarrow> 'e heap" where
  "initial_heap X = [False_f X, True_f X]"

definition make_shared :: "(nat \<Rightarrow> 'e Formula) \<Rightarrow> 'e heap \<Rightarrow> 'e Formula \<times> 'e heap" where
  "make_shared cell h = (let f = cell (length h) in (f, f # h))"

subsection \<open>Canonicalizing constructors\<close>

definition forall :: "'e collaborators \<Rightarrow> Variables \<Rightarrow> 'e Formula \<Rightarrow> 'e heap \<Rightarrow> 'e Formula \<times> 'e heap" where
  "forall X vars f h =
     make_shared (\<lambda>p. FormulaForall p
       (FormulaCell_hash X KForall (hash_combine X (Variables_get_hash X vars) (get_hash f)))
       vars f) h"

definition operator_and :: "'e collaborators \<Rightarrow> 'e Formula \<Rightarrow> 'e Formula \<Rightarrow> 'e heap \<Rightarrow> 'e Formula \<times> 'e heap" where
  "operator_and X f1 f2 h =
     (if get_kind f1 = KFalse \<or> get_kind f2 = KFalse then (False_f X, h)
      else if get_kind f1 = KTrue then (f2, h)
      else if get_kind f2 = KTrue then (f1, h)
      else make_shared (\<lambda>p. FormulaAnd p
             (FormulaCell_hash X KAnd (hash_combine X (get_hash f1) (get_hash f2))) f1 f2) h)"

definition operator_or :: "'e collaborators \<Rightarrow> 'e Formula \<Rightarrow> 'e Formula \<Rightarrow> 'e heap \<Rightarrow> 'e Formula \<times> 'e heap" where
  "operator_or X f1 f2 h =
     (if get_kind f1 = KTrue \<or> get_kind f2 = KTrue then (True_f X, h)
      else if get_kind f1 = KFalse then (f2, h)
      else if get_kind f2 = KFalse then (f1, h)
      else make_shared (\<lambda>p. FormulaOr p
             (FormulaCell_hash X KOr (hash_combine X (get_hash f1) (get_hash f2))) f1 f2) h)"

definition operator_not :: "'e collaborators \<Rightarrow> 'e Formula \<Rightarrow> 'e heap \<Rightarrow> 'e Formula \<times> 'e heap" where
  "operator_not X f h =
     (if get_kind f = KTrue then (False_f X, h)
      else if get_kind f = KFalse then (True_f X, h)
      else make_shared (\<lambda>p. FormulaNot p (FormulaCell_hash X KNot (get_hash f)) f) h)"

text \<open>The hash handed to the base class by each of the six relational cells.\<close>

definition relational_hash :: "'e collaborators \<Rightarrow> FormulaKind \<Rightarrow> 'e \<Rightarrow> 'e \<Rightarrow> size_t" where
  "relational_hash X k e1 e2 =
     FormulaCell_hash X k (hash_combine X (Expression_get_hash X e1) (Expression_get_hash X e2))"

definition operator_eq :: "'e collaborators \<Rightarrow> 'e \<Rightarrow> 'e \<Rightarrow> 'e heap \<Rightarrow> 'e Formula \<times> 'e heap" where
  "operator_eq X e1 e2 h =
     (if Expression_EqualTo X e1 e2 then (True_f X, h)
      else make_shared (\<lambda>p. FormulaEq p (relational_hash X KEq e1 e2) e1 e2) h)"

definition operator_neq :: "'e collaborators \<Rightarrow> 'e \<Rightarrow> 'e \<Rightarrow> 'e heap \<Rightarrow> 'e Formula \<times> 'e heap" where
  "operator_neq X e1 e2 h =
     (if Expression_EqualTo X e1 e2 then (False_f X, h)
      else make_shared (\<lambda>p. FormulaNeq p (relational_hash X KNeq e1 e2) e1 e2) h)"

definition operator_lt :: "'e collaborators \<Rightarrow> 'e \<Rightarrow> 'e \<Rightarrow> 'e heap \<Rightarrow> 'e Formula \<times> 'e heap" where
  "operator_lt X e1 e2 h =
     (if Expression_EqualTo X e1 e2 then (False_f X, h)
      else make_shared (\<lambda>p. FormulaLt p (relational_hash X KLt e1 e2) e1 e2) h)"

definition operator_leq :: "'e collaborators \<Rightarrow> 'e \<Rightarrow> 'e \<Rightarrow> 'e heap \<Rightarrow> 'e Formula \<times> 'e heap" where
  "operator_leq X e1 e2 h =
     (if Expression_EqualTo X e1 e2 then (True_f X, h)
      else make_shared (\<lambda>p. FormulaLeq p (relational_hash X KLeq e1 e2) e1 e2) h)"

definition operator_gt :: "'e collaborators \<Rightarrow> 'e \<Rightarrow> 'e \<Rightarrow> 'e heap \<Rightarrow> 'e Formula \<times> 'e heap" where
  "operator_gt X e1 e2 h =
     (if Expression_EqualTo X e1 e2 then (False_f X, h)
      else make_shared (\<lambda>p. FormulaGt p (relational_hash X KGt e1 e2) e1 e2) h)"

definition operator_geq :: "'e collaborators \<Rightarrow> 'e \<Rightarrow> 'e \<Rightarrow> 'e heap \<Rightarrow> 'e Formula \<times> 'e heap" where
  "operator_geq X e1 e2 h =
     (if Expression_EqualTo X e1 e2 then (True_f X, h)
      else make_shared (\<lambda>p. FormulaGeq p (relational_hash X KGeq e1 e2) e1 e2) h)"

subsection \<open>Structural equality\<close>

text \<open>
  \<open>Formula::EqualTo\<close> and the virtual \<open>FormulaCell::EqualTo\<close> call each other. After
  its kind check a cell casts the other cell to its own class and reads the fields;
  the selectors \<open>cell_e1\<close>, \<open>cell_f1\<close>, ... (the fields \<open>e1_\<close>, \<open>f1_\<close>, ...) play the part of the cast.
\<close>

fun EqualTo :: "'e collaborators \<Rightarrow> 'e Formula \<Rightarrow> 'e Formula \<Rightarrow> bool"
  and FormulaCell_EqualTo :: "'e collaborators \<Rightarrow> 'e Formula \<Rightarrow> 'e Formula \<Rightarrow> bool" where
  "EqualTo X f g =
     (if ptr f = ptr g then True
      else if get_kind f \<noteq> get_kind g then False
      else if get_hash f \<noteq> get_hash g then False
      else FormulaCell_EqualTo X f g)"
| "FormulaCell_EqualTo X (FormulaTrue p h) g = (KTrue = get_kind g)"
| "FormulaCell_EqualTo X (FormulaFalse p h) g = (KFalse = get_kind g)"
| "FormulaCell_EqualTo X (FormulaEq p h e1 e2) g =
     (if KEq \<noteq> get_kind g then False
      else Expression_EqualTo X e1 (cell_e1 g) \<and> Expression_EqualTo X e2 (cell_e2 g))"
| "FormulaCell_EqualTo X (FormulaNeq p h e1 e2) g =
     (if KNeq \<noteq> get_kind g then False
      else Expression_EqualTo X e1 (cell_e1 g) \<and> Expression_EqualTo X e2 (cell_e2 g))"
| "FormulaCell_EqualTo X (FormulaGt p h e1 e2) g =
     (if KGt \<noteq> get_kind g then False
      else Expression_EqualTo X e1 (cell_e1 g) \<and> Expression_EqualTo X e2 (cell_e2 g))"
| "FormulaCell_EqualTo X (FormulaGeq p h e1 e2) g =
     (if KGeq \<noteq> get_kind g then False
      else Expression_EqualTo X e1 (cell_e1 g) \<and> Expression_EqualTo X e2 (cell_e2 g))"
| "FormulaCell_EqualTo X (FormulaLt p h e1 e2) g =
     (if KLt \<noteq> get_kind g then False
      else Expression_EqualTo X e1 (cell_e1 g) \<and> Expression_EqualTo X e2 (cell_e2 g))"
| "FormulaCell_EqualTo X (FormulaLeq p h e1 e2) g =
     (if KLeq \<noteq> get_kind g then False
      else Expression_EqualTo X e1 (cell_e1 g) \<and> Expression_EqualTo X e2 (cell_e2 g))"
| "FormulaCell_EqualTo X (FormulaAnd p h f1 f2) g =
     (if KAnd \<noteq> get_kind g then False
      else EqualTo X f1 (cell_f1 g) \<and> EqualTo X f2 (cell_f2 g))"
| "FormulaCell_EqualTo X (FormulaOr p h f1 f2) g =
     (if KOr \<noteq> get_kind g then False
      else EqualTo X f1 (cell_f1 g) \<and> EqualTo X f2 (cell_f2 g))"
| "FormulaCell_EqualTo X (FormulaNot p h f) g =
     (if KNot \<noteq> get_kind g then False
      else EqualTo X f (cell_f g))"
| "FormulaCell_EqualTo X (FormulaForall p h vars f) g =
     (if KForall \<noteq> get_kind g then False
      else vars = cell_vars g \<and> EqualTo X f (cell_f g))"

subsection \<open>The tests of EqualTo, in the order they run\<close>

text \<open>
  The same two functions once more, now returning next to the result the tests they
  ran, in order: the pointer comparison, the kind comparison and the hash comparison
  of \<open>Formula::EqualTo\<close>, the kind test at the head of each cell's \<open>EqualTo\<close>, the
  calls of \<open>Expression::EqualTo\<close> and the comparison of two \<open>Variables\<close>. A test that
  the code does not reach (after a \<open>return\<close>, or right of an \<open>&&\<close> whose left side is
  false) is not in the list.
\<close>

datatype 'e test =
    Same_node nat nat
  | Same_kind FormulaKind FormulaKind
  | Same_hash size_t size_t
  | Cell_kind FormulaKind FormulaKind
  | Expression_test 'e 'e
  | Variables_test Variables Variables

definition log_first :: "'e test \<Rightarrow> bool \<times> 'e test list \<Rightarrow> bool \<times> 'e test list" where
  "log_first t r = (fst r, t # snd r)"

definition Expression_EqualTo_log :: "'e collaborators \<Rightarrow> 'e \<Rightarrow> 'e \<Rightarrow> 'e \<Rightarrow> 'e \<Rightarrow> bool \<times> 'e test list" where
  "Expression_EqualTo_log X e1 d1 e2 d2 =
     (if Expression_EqualTo X e1 d1
      then (Expression_EqualTo X e2 d2, [Expression_test e1 d1, Expression_test e2 d2])
      else (False, [Expression_test e1 d1]))"

fun EqualTo_log :: "'e collaborators \<Rightarrow> 'e Formula \<Rightarrow> 'e Formula \<Rightarrow> bool \<times> 'e test list"
  and FormulaCell_EqualTo_log :: "'e collaborators \<Rightarrow> 'e Formula \<Rightarrow> 'e Formula \<Rightarrow> bool \<times> 'e test list" where
  "EqualTo_log X f g =
     (if ptr f = ptr g then (True, [Same_node (ptr f) (ptr g)])
      else if get_kind f \<noteq> get_kind g
        then (False, [Same_node (ptr f) (ptr g), Same_kind (get_kind f) (get_kind g)])
      else if get_hash f \<noteq> get_hash g
        then (False, [Same_node (ptr f) (ptr g), Same_kind (get_kind f) (get_kind g),
                      Same_hash (get_hash f) (get_hash g)])
      else log_first (Same_node (ptr f) (ptr g)) (log_first (Same_kind (get_kind f) (get_kind g))
             (log_first (Same_hash (get_hash f) (get_hash g)) (FormulaCell_EqualTo_log X f g))))"
| "FormulaCell_EqualTo_log X (FormulaTrue p h) g = (KTrue = get_kind g, [Cell_kind KTrue (get_kind g)])"
| "FormulaCell_EqualTo_log X (FormulaFalse p h) g = (KFalse = get_kind g, [Cell_kind KFalse (get_kind g)])"
| "FormulaCell_EqualTo_log X (FormulaEq p h e1 e2) g =
     (if KEq \<noteq> get_kind g then (False, [Cell_kind KEq (get_kind g)])
      else log_first (Cell_kind KEq (get_kind g))
        (Expression_EqualTo_log X e1 (cell_e1 g) e2 (cell_e2 g)))"
| "FormulaCell_EqualTo_log X (FormulaNeq p h e1 e2) g =
     (if KNeq \<noteq> get_kind g then (False, [Cell_kind KNeq (get_kind g)])
      else log_first (Cell_kind KNeq (get_kind g))
        (Expression_EqualTo_log X e1 (cell_e1 g) e2 (cell_e2 g)))"
| "FormulaCell_EqualTo_log X (FormulaGt p h e1 e2) g =
     (if KGt \<noteq> get_kind g then (False, [Cell_kind KGt (get_kind g)])
      else log_first (Cell_kind KGt (get_kind g))
        (Expression_EqualTo_log X e1 (cell_e1 g) e2 (cell_e2 g)))"
| "FormulaCell_EqualTo_log X (FormulaGeq p h e1 e2) g =
     (if KGeq \<noteq> get_kind g then (False, [Cell_kind KGeq (get_kind g)])
      else log_first (Cell_kind KGeq (get_kind g))
        (Expression_EqualTo_log X e1 (cell_e1 g) e2 (cell_e2 g)))"
| "FormulaCell_EqualTo_log X (FormulaLt p h e1 e2) g =
     (if KLt \<noteq> get_kind g then (False, [Cell_kind KLt (get_kind g)])
      else log_first (Cell_kind KLt (get_kind g))
        (Expression_EqualTo_log X e1 (cell_e1 g) e2 (cell_e2 g)))"
| "FormulaCell_EqualTo_log X (FormulaLeq p h e1 e2) g =
     (if KLeq \<noteq> get_kind g then (False, [Cell_kind KLeq (get_kind g)])
      else log_first (Cell_kind KLeq (get_kind g))
        (Expression_EqualTo_log X e1 (cell_e1 g) e2 (cell_e2 g)))"
| "FormulaCell_EqualTo_log X (FormulaAnd p h f1 f2) g =
     (if KAnd \<noteq> get_kind g then (False, [Cell_kind KAnd (get_kind g)])
      else log_first (Cell_kind KAnd (get_kind g))
        (if fst (EqualTo_log X f1 (cell_f1 g))
         then (fst (EqualTo_log X f2 (cell_f2 g)),
               snd (EqualTo_log X f1 (cell_f1 g)) @ snd (EqualTo_log X f2 (cell_f2 g)))
         else (False, snd (EqualTo_log X f1 (cell_f1 g)))))"
| "FormulaCell_EqualTo_log X (FormulaOr p h f1 f2) g =
     (if KOr \<noteq> get_kind g then (False, [Cell_kind KOr (get_kind g)])
      else log_first (Cell_kind KOr (get_kind g))
        (if fst (EqualTo_log X f1 (cell_f1 g))
         then (fst (EqualTo_log X f2 (cell_f2 g)),
               snd (EqualTo_log X f1 (cell_f1 g)) @ snd (EqualTo_log X f2 (cell_f2 g)))
         else (False, snd (EqualTo_log X f1 (cell_f1 g)))))"
| "FormulaCell_EqualTo_log X (FormulaNot p h f) g =
     (if KNot \<noteq> get_kind g then (False, [Cell_kind KNot (get_kind g)])
      else log_first (Cell_kind KNot (get_kind g))
        (EqualTo_log X f (cell_f g)))"
| "FormulaCell_EqualTo_log X (FormulaForall p h vars f) g =
     (if KForall \<noteq> get_kind g then (False, [Cell_kind KForall (get_kind g)])
      else log_first (Cell_kind KForall (get_kind g))
        (if vars = cell_vars g
         then log_first (Variables_test vars (cell_vars g)) (EqualTo_log X f (cell_f g))
         else (False, [Variables_test vars (cell_vars g)])))"

subsection \<open>Free variables\<close>

fun GetFreeVariables :: "'e collaborators \<Rightarrow> 'e Formula \<Rightarrow> Variables" where
  "GetFreeVariables X (FormulaTrue p h) = {}"
| "GetFreeVariables X (FormulaFalse p h) = {}"
| "GetFreeVariables X (FormulaEq p h e1 e2) =
     Expression_GetVariables X e1 \<union> Expression_GetVariables X e2"
| "GetFreeVariables X (FormulaNeq p h e1 e2) =
     Expression_GetVariables X e1 \<union> Expression_GetVariables X e2"
| "GetFreeVariables X (FormulaGt p h e1 e2) =
     Expression_GetVariables X e1 \<union> Expression_GetVariables X e2"
| "GetFreeVariables X (FormulaGeq p h e1 e2) =
     Expression_GetVariables X e1 \<union> Expression_GetVariables X e2"
| "GetFreeVariables X (FormulaLt p h e1 e2) =
     Expression_GetVariables X e1 \<union> Expression_GetVariables X e2"
| "GetFreeVariables X (FormulaLeq p h e1 e2) =
     Expression_GetVariables X e1 \<union> Expression_GetVariables X e2"
| "GetFreeVariables X (FormulaAnd p h f1 f2) = GetFreeVariables X f1 \<union> GetFreeVariables X f2"
| "GetFreeVariables X (FormulaOr p h f1 f2) = GetFreeVariables X f1 \<union> GetFreeVariables X f2"
| "GetFreeVariables X (FormulaNot p h f) = GetFreeVariables X f"
| "GetFreeVariables X (FormulaForall p h vars f) = GetFreeVariables X f - vars"

subsection \<open>Evaluation\<close>

text \<open>
  A relational cell evaluates both operands and compares the two doubles; an exception
  thrown by either operand leaves the cell's \<open>Evaluate\<close>. The model evaluates the left
  operand first. \<open>&&\<close> and \<open>||\<close> of C++ evaluate their right operand only when the
  left one does not decide the result.
\<close>

definition Evaluate_operands :: "'e collaborators \<Rightarrow> 'e \<Rightarrow> 'e \<Rightarrow> Environment \<Rightarrow> (double \<Rightarrow> double \<Rightarrow> bool) \<Rightarrow> runtime_error + bool" where
  "Evaluate_operands X e1 e2 env rel =
     (case Expression_Evaluate X e1 env of
        Inl err \<Rightarrow> Inl err
      | Inr v1 \<Rightarrow>
          (case Expression_Evaluate X e2 env of
             Inl err \<Rightarrow> Inl err
           | Inr v2 \<Rightarrow> Inr (rel v1 v2)))"

fun Evaluate :: "'e collaborators \<Rightarrow> 'e Formula \<Rightarrow> Environment \<Rightarrow> runtime_error + bool" where
  "Evaluate X (FormulaTrue p h) env = Inr True"
| "Evaluate X (FormulaFalse p h) env = Inr False"
| "Evaluate X (FormulaEq p h e1 e2) env = Evaluate_operands X e1 e2 env double_eq"
| "Evaluate X (FormulaNeq p h e1 e2) env = Evaluate_operands X e1 e2 env double_neq"
| "Evaluate X (FormulaGt p h e1 e2) env = Evaluate_operands X e1 e2 env double_greater"
| "Evaluate X (FormulaGeq p h e1 e2) env = Evaluate_operands X e1 e2 env double_greater_eq"
| "Evaluate X (FormulaLt p h e1 e2) env = Evaluate_operands X e1 e2 env double_less"
| "Evaluate X (FormulaLeq p h e1 e2) env = Evaluate_operands X e1 e2 env double_less_eq"
| "Evaluate X (FormulaAnd p h f1 f2) env =
     (case Evaluate X f1 env of
        Inl err \<Rightarrow> Inl err
      | Inr b1 \<Rightarrow> if b1 then Evaluate X f2 env else Inr False)"
| "Evaluate X (FormulaOr p h f1 f2) env =
     (case Evaluate X f1 env of
        Inl err \<Rightarrow> Inl err
      | Inr b1 \<Rightarrow> if b1 then Inr True else Evaluate X f2 env)"
| "Evaluate X (FormulaNot p h f) env =
     (case Evaluate X f env of
        Inl err \<Rightarrow> Inl err
      | Inr b \<Rightarrow> Inr (\<not> b))"
| "Evaluate X (FormulaForall p h vars f) env = Inl (runtime_error ''not implemented yet'')"

subsection \<open>Structural equality as the specification words it\<close>

text \<open>
  The specification defines structural equality as equality via recursive comparison
  of kind and children, independent of object identity. This second definition follows
  those words (it looks neither at addresses nor at hashes); \<open>EqualTo\<close> above is the
  one translated from the code.
\<close>

fun structurally_equal :: "'e collaborators \<Rightarrow> 'e Formula \<Rightarrow> 'e Formula \<Rightarrow> bool" where
  "structurally_equal X (FormulaTrue p h) g = (get_kind g = KTrue)"
| "structurally_equal X (FormulaFalse p h) g = (get_kind g = KFalse)"
| "structurally_equal X (FormulaEq p h e1 e2) g =
     (get_kind g = KEq \<and> Expression_EqualTo X e1 (cell_e1 g) \<and> Expression_EqualTo X e2 (cell_e2 g))"
| "structurally_equal X (FormulaNeq p h e1 e2) g =
     (get_kind g = KNeq \<and> Expression_EqualTo X e1 (cell_e1 g) \<and> Expression_EqualTo X e2 (cell_e2 g))"
| "structurally_equal X (FormulaGt p h e1 e2) g =
     (get_kind g = KGt \<and> Expression_EqualTo X e1 (cell_e1 g) \<and> Expression_EqualTo X e2 (cell_e2 g))"
| "structurally_equal X (FormulaGeq p h e1 e2) g =
     (get_kind g = KGeq \<and> Expression_EqualTo X e1 (cell_e1 g) \<and> Expression_EqualTo X e2 (cell_e2 g))"
| "structurally_equal X (FormulaLt p h e1 e2) g =
     (get_kind g = KLt \<and> Expression_EqualTo X e1 (cell_e1 g) \<and> Expression_EqualTo X e2 (cell_e2 g))"
| "structurally_equal X (FormulaLeq p h e1 e2) g =
     (get_kind g = KLeq \<and> Expression_EqualTo X e1 (cell_e1 g) \<and> Expression_EqualTo X e2 (cell_e2 g))"
| "structurally_equal X (FormulaAnd p h f1 f2) g =
     (get_kind g = KAnd \<and> structurally_equal X f1 (cell_f1 g) \<and> structurally_equal X f2 (cell_f2 g))"
| "structurally_equal X (FormulaOr p h f1 f2) g =
     (get_kind g = KOr \<and> structurally_equal X f1 (cell_f1 g) \<and> structurally_equal X f2 (cell_f2 g))"
| "structurally_equal X (FormulaNot p h f) g =
     (get_kind g = KNot \<and> structurally_equal X f (cell_f g))"
| "structurally_equal X (FormulaForall p h vars f) g =
     (get_kind g = KForall \<and> vars = cell_vars g \<and> structurally_equal X f (cell_f g))"

text \<open>
  The contract the formula code expects of \<open>Expression\<close>: an expression is
  structurally equal to itself, and structurally equal expressions have equal hashes.
  (For \<open>Variables\<close> the same holds by construction: equal sets are the same value.)
\<close>

definition Expression_contract :: "'e collaborators \<Rightarrow> bool" where
  "Expression_contract X \<longleftrightarrow>
     (\<forall>e. Expression_EqualTo X e e) \<and>
     (\<forall>e1 e2. Expression_EqualTo X e1 e2 \<longrightarrow> Expression_get_hash X e1 = Expression_get_hash X e2)"

subsection \<open>Formulas built through the public constructors\<close>

text \<open>
  The heaps a program can reach: it starts with the two singletons and calls the
  constructors on expressions and on formulas it has built before.
\<close>

inductive reach :: "'e collaborators \<Rightarrow> 'e heap \<Rightarrow> bool" for X :: "'e collaborators" where
  reach_initial: "reach X (initial_heap X)"
| reach_forall: "reach X h \<Longrightarrow> f \<in> set h \<Longrightarrow> reach X (snd (forall X vars f h))"
| reach_and: "reach X h \<Longrightarrow> f1 \<in> set h \<Longrightarrow> f2 \<in> set h \<Longrightarrow> reach X (snd (operator_and X f1 f2 h))"
| reach_or: "reach X h \<Longrightarrow> f1 \<in> set h \<Longrightarrow> f2 \<in> set h \<Longrightarrow> reach X (snd (operator_or X f1 f2 h))"
| reach_not: "reach X h \<Longrightarrow> f \<in> set h \<Longrightarrow> reach X (snd (operator_not X f h))"
| reach_eq: "reach X h \<Longrightarrow> reach X (snd (operator_eq X e1 e2 h))"
| reach_neq: "reach X h \<Longrightarrow> reach X (snd (operator_neq X e1 e2 h))"
| reach_lt: "reach X h \<Longrightarrow> reach X (snd (operator_lt X e1 e2 h))"
| reach_leq: "reach X h \<Longrightarrow> reach X (snd (operator_leq X e1 e2 h))"
| reach_gt: "reach X h \<Longrightarrow> reach X (snd (operator_gt X e1 e2 h))"
| reach_geq: "reach X h \<Longrightarrow> reach X (snd (operator_geq X e1 e2 h))"

fun children :: "'e Formula \<Rightarrow> 'e Formula list" where
  "children (FormulaAnd p h f1 f2) = [f1, f2]"
| "children (FormulaOr p h f1 f2) = [f1, f2]"
| "children (FormulaNot p h f) = [f]"
| "children (FormulaForall p h vars f) = [f]"
| "children f = []"

text \<open>The canonical form: what the simplifications of the constructors rule out, at every node.\<close>

definition is_constant :: "'e Formula \<Rightarrow> bool" where
  "is_constant f \<longleftrightarrow> get_kind f = KTrue \<or> get_kind f = KFalse"

fun canonical :: "'e collaborators \<Rightarrow> 'e Formula \<Rightarrow> bool" where
  "canonical X (FormulaTrue p h) = True"
| "canonical X (FormulaFalse p h) = True"
| "canonical X (FormulaEq p h e1 e2) = (\<not> Expression_EqualTo X e1 e2)"
| "canonical X (FormulaNeq p h e1 e2) = (\<not> Expression_EqualTo X e1 e2)"
| "canonical X (FormulaGt p h e1 e2) = (\<not> Expression_EqualTo X e1 e2)"
| "canonical X (FormulaGeq p h e1 e2) = (\<not> Expression_EqualTo X e1 e2)"
| "canonical X (FormulaLt p h e1 e2) = (\<not> Expression_EqualTo X e1 e2)"
| "canonical X (FormulaLeq p h e1 e2) = (\<not> Expression_EqualTo X e1 e2)"
| "canonical X (FormulaAnd p h f1 f2) =
     (\<not> is_constant f1 \<and> \<not> is_constant f2 \<and> canonical X f1 \<and> canonical X f2)"
| "canonical X (FormulaOr p h f1 f2) =
     (\<not> is_constant f1 \<and> \<not> is_constant f2 \<and> canonical X f1 \<and> canonical X f2)"
| "canonical X (FormulaNot p h f) = (\<not> is_constant f \<and> canonical X f)"
| "canonical X (FormulaForall p h vars f) = canonical X f"

text \<open>The hash stored in every cell is the one its constructor computes from the children.\<close>

fun hash_consistent :: "'e collaborators \<Rightarrow> 'e Formula \<Rightarrow> bool" where
  "hash_consistent X (FormulaTrue p h) = (h = FormulaCell_hash X KTrue (hash_string X ''True''))"
| "hash_consistent X (FormulaFalse p h) = (h = FormulaCell_hash X KFalse (hash_string X ''False''))"
| "hash_consistent X (FormulaEq p h e1 e2) = (h = relational_hash X KEq e1 e2)"
| "hash_consistent X (FormulaNeq p h e1 e2) = (h = relational_hash X KNeq e1 e2)"
| "hash_consistent X (FormulaGt p h e1 e2) = (h = relational_hash X KGt e1 e2)"
| "hash_consistent X (FormulaGeq p h e1 e2) = (h = relational_hash X KGeq e1 e2)"
| "hash_consistent X (FormulaLt p h e1 e2) = (h = relational_hash X KLt e1 e2)"
| "hash_consistent X (FormulaLeq p h e1 e2) = (h = relational_hash X KLeq e1 e2)"
| "hash_consistent X (FormulaAnd p h f1 f2) =
     (h = FormulaCell_hash X KAnd (hash_combine X (get_hash f1) (get_hash f2))
      \<and> hash_consistent X f1 \<and> hash_consistent X f2)"
| "hash_consistent X (FormulaOr p h f1 f2) =
     (h = FormulaCell_hash X KOr (hash_combine X (get_hash f1) (get_hash f2))
      \<and> hash_consistent X f1 \<and> hash_consistent X f2)"
| "hash_consistent X (FormulaNot p h f) =
     (h = FormulaCell_hash X KNot (get_hash f) \<and> hash_consistent X f)"
| "hash_consistent X (FormulaForall p h vars f) =
     (h = FormulaCell_hash X KForall (hash_combine X (Variables_get_hash X vars) (get_hash f))
      \<and> hash_consistent X f)"

text \<open>
  What holds of every reachable heap: the singletons are there, addresses are below
  the next free one and name one cell each, children of a cell are cells of the heap,
  and every cell is canonical with a consistent hash.
\<close>

definition heap_inv :: "'e collaborators \<Rightarrow> 'e heap \<Rightarrow> bool" where
  "heap_inv X h \<longleftrightarrow>
     True_f X \<in> set h \<and> False_f X \<in> set h \<and>
     (\<forall>f \<in> set h.
        ptr f < length h \<and>
        set (children f) \<subseteq> set h \<and>
        canonical X f \<and>
        hash_consistent X f \<and>
        (get_kind f = KTrue \<longrightarrow> f = True_f X) \<and>
        (get_kind f = KFalse \<longrightarrow> f = False_f X) \<and>
        (\<forall>g \<in> set h. ptr f = ptr g \<longrightarrow> f = g))"

text \<open>
  The valid formulas in general: a set of handles in which every address names one
  cell, the children of a cell are cells of the set, and every stored hash is the one
  the cell's constructor computes. Nothing is asked about canonical form, and there
  may be several \<open>True\<close> or \<open>False\<close> cells.
\<close>

definition well_formed :: "'e collaborators \<Rightarrow> 'e heap \<Rightarrow> bool" where
  "well_formed X h \<longleftrightarrow>
     (\<forall>f \<in> set h.
        set (children f) \<subseteq> set h \<and>
        hash_consistent X f \<and>
        (\<forall>g \<in> set h. ptr f = ptr g \<longrightarrow> f = g))"

text \<open>A cell is fresh for a heap when no cell of the heap lives at its address.\<close>

definition fresh :: "'e heap \<Rightarrow> 'e Formula \<Rightarrow> bool" where
  "fresh h f \<longleftrightarrow> (\<forall>g \<in> set h. ptr g \<noteq> ptr f)"

subsection \<open>Short-circuit evaluation\<close>

text \<open>
  The free variables of \<open>f\<close> that evaluation under \<open>env\<close> does not skip.
  \<open>FormulaAnd::Evaluate\<close> returns without evaluating its right operand when the left
  one evaluates to false, and \<open>FormulaOr::Evaluate\<close> when the left one evaluates to
  true: the variables of that right operand are skipped. Nothing else is: a
  relational cell evaluates both operands, a right operand is evaluated when the left
  one does not decide, and when the left operand throws, or the cell is a \<open>Forall\<close>,
  evaluation fails whatever the variables are bound to.
\<close>

fun unskipped_variables :: "'e collaborators \<Rightarrow> 'e Formula \<Rightarrow> Environment \<Rightarrow> Variables" where
  "unskipped_variables X (FormulaAnd p h f1 f2) env =
     unskipped_variables X f1 env \<union>
     (case Evaluate X f1 env of
        Inl err \<Rightarrow> GetFreeVariables X f2
      | Inr b1 \<Rightarrow> if b1 then unskipped_variables X f2 env else {})"
| "unskipped_variables X (FormulaOr p h f1 f2) env =
     unskipped_variables X f1 env \<union>
     (case Evaluate X f1 env of
        Inl err \<Rightarrow> GetFreeVariables X f2
      | Inr b1 \<Rightarrow> if b1 then {} else unskipped_variables X f2 env)"
| "unskipped_variables X (FormulaNot p h f) env = unskipped_variables X f env"
| "unskipped_variables X f env = GetFreeVariables X f"

subsection \<open>A concrete instance of the collaborators\<close>

text \<open>
  Modelled from the spec: \<open>Expression\<close> (symbolic_expression.h and its implementation
  are not among the sources). The instance has the two forms of expression that the
  formula code and the specification's scenarios use, a finite numeric literal
  (\<open>Expression{v}\<close>) and a variable, which evaluates to the number the environment
  binds it to and fails to evaluate when the environment does not bind it. Its hash combiner is plain addition, so that two operands in
  swapped order collide. The instance serves to run the model on concrete inputs.
\<close>

datatype Expression = Constant real | Var Variable

fun Expression_hash0 :: "Expression \<Rightarrow> size_t" where
  "Expression_hash0 (Constant c) = 0"
| "Expression_hash0 (Var v) = of_nat v + 1"

fun Expression_vars0 :: "Expression \<Rightarrow> Variables" where
  "Expression_vars0 (Constant c) = {}"
| "Expression_vars0 (Var v) = {v}"

fun Expression_eval0 :: "Expression \<Rightarrow> Environment \<Rightarrow> runtime_error + double" where
  "Expression_eval0 (Constant c) env = Inr (Finite c)"
| "Expression_eval0 (Var v) env =
     (case env v of
        None \<Rightarrow> Inl (runtime_error ''variable not in environment'')
      | Some x \<Rightarrow> Inr x)"

fun kind_code0 :: "FormulaKind \<Rightarrow> size_t" where
  "kind_code0 KFalse = 0"
| "kind_code0 KTrue = 1"
| "kind_code0 KEq = 2"
| "kind_code0 KNeq = 3"
| "kind_code0 KGt = 4"
| "kind_code0 KGeq = 5"
| "kind_code0 KLt = 6"
| "kind_code0 KLeq = 7"
| "kind_code0 KAnd = 8"
| "kind_code0 KOr = 9"
| "kind_code0 KNot = 10"
| "kind_code0 KForall = 11"

definition sample :: "Expression collaborators" where
  "sample = \<lparr>
     hash_combine = (\<lambda>seed v. seed + v),
     hash_string = (\<lambda>s. of_nat (length s)),
     kind_to_size_t = kind_code0,
     Expression_get_hash = Expression_hash0,
     Expression_EqualTo = (\<lambda>a b. a = b),
     Expression_GetVariables = Expression_vars0,
     Expression_Evaluate = Expression_eval0,
     Variables_get_hash = (\<lambda>vs. of_nat (card vs)) \<rparr>"

text \<open>
  A heap built with three calls of \<open>operator==\<close>: \<open>x0 == x1\<close>, \<open>x1 == x0\<close> and
  \<open>x0 == 1\<close>.
\<close>

definition sample_heap :: "Expression heap" where
  "sample_heap =
     snd (operator_eq sample (Var 0) (Constant 1)
       (snd (operator_eq sample (Var 1) (Var 0)
         (snd (operator_eq sample (Var 0) (Var 1) (initial_heap sample))))))"


section \<open>Properties\<close>

subsection \<open>Reachable heaps keep the invariant\<close>

lemma make_shared_simp: "make_shared cell h = (cell (length h), cell (length h) # h)"
  by (simp add: make_shared_def Let_def)

lemma get_kind_True_f [simp]: "get_kind (True_f X) = KTrue"
  by (simp add: True_f_def)

lemma get_kind_False_f [simp]: "get_kind (False_f X) = KFalse"
  by (simp add: False_f_def)

lemma heap_inv_initial: "heap_inv X (initial_heap X)"
  by (auto simp: heap_inv_def initial_heap_def True_f_def False_f_def)

lemma heap_inv_canonical: "heap_inv X h \<Longrightarrow> f \<in> set h \<Longrightarrow> canonical X f"
  by (simp add: heap_inv_def)

lemma heap_inv_hash_consistent: "heap_inv X h \<Longrightarrow> f \<in> set h \<Longrightarrow> hash_consistent X f"
  by (simp add: heap_inv_def)

lemma heap_inv_children: "heap_inv X h \<Longrightarrow> f \<in> set h \<Longrightarrow> g \<in> set (children f) \<Longrightarrow> g \<in> set h"
  unfolding heap_inv_def by blast

lemma heap_inv_ptr_less: "heap_inv X h \<Longrightarrow> f \<in> set h \<Longrightarrow> ptr f < length h"
  by (simp add: heap_inv_def)

lemma heap_inv_ptr_inj: "heap_inv X h \<Longrightarrow> f \<in> set h \<Longrightarrow> g \<in> set h \<Longrightarrow> ptr f = ptr g \<Longrightarrow> f = g"
  unfolding heap_inv_def by blast

lemma heap_inv_True: "heap_inv X h \<Longrightarrow> f \<in> set h \<Longrightarrow> get_kind f = KTrue \<Longrightarrow> f = True_f X"
  by (simp add: heap_inv_def)

lemma heap_inv_False: "heap_inv X h \<Longrightarrow> f \<in> set h \<Longrightarrow> get_kind f = KFalse \<Longrightarrow> f = False_f X"
  by (simp add: heap_inv_def)

lemma heap_inv_singletons: "heap_inv X h \<Longrightarrow> True_f X \<in> set h \<and> False_f X \<in> set h"
  by (simp add: heap_inv_def)

lemma heap_inv_well_formed: "heap_inv X h \<Longrightarrow> well_formed X h"
  unfolding heap_inv_def well_formed_def by blast

lemma well_formed_children:
  "well_formed X h \<Longrightarrow> f \<in> set h \<Longrightarrow> g \<in> set (children f) \<Longrightarrow> g \<in> set h"
  unfolding well_formed_def by blast

lemma well_formed_hash_consistent: "well_formed X h \<Longrightarrow> f \<in> set h \<Longrightarrow> hash_consistent X f"
  by (simp add: well_formed_def)

lemma well_formed_ptr_inj:
  "well_formed X h \<Longrightarrow> f \<in> set h \<Longrightarrow> g \<in> set h \<Longrightarrow> ptr f = ptr g \<Longrightarrow> f = g"
  unfolding well_formed_def by blast

lemma heap_inv_alloc:
  assumes inv: "heap_inv X h" and p: "ptr c = length h" and ch: "set (children c) \<subseteq> set h"
    and can: "canonical X c" and hc: "hash_consistent X c" and nc: "\<not> is_constant c"
  shows "heap_inv X (c # h)"
proof -
  have below: "ptr g < ptr c" if "g \<in> set h" for g
    using heap_inv_ptr_less [OF inv that] p by simp
  have c_ok: "ptr c < length (c # h) \<and> set (children c) \<subseteq> set (c # h) \<and> canonical X c \<and>
      hash_consistent X c \<and> (get_kind c = KTrue \<longrightarrow> c = True_f X) \<and>
      (get_kind c = KFalse \<longrightarrow> c = False_f X) \<and> (\<forall>g \<in> set (c # h). ptr c = ptr g \<longrightarrow> c = g)"
  proof (intro conjI)
    show "ptr c < length (c # h)" using p by simp
    show "set (children c) \<subseteq> set (c # h)" using ch by auto
    show "canonical X c" by (rule can)
    show "hash_consistent X c" by (rule hc)
    show "get_kind c = KTrue \<longrightarrow> c = True_f X" using nc by (simp add: is_constant_def)
    show "get_kind c = KFalse \<longrightarrow> c = False_f X" using nc by (simp add: is_constant_def)
    show "\<forall>g \<in> set (c # h). ptr c = ptr g \<longrightarrow> c = g" using below by fastforce
  qed
  have old_ok: "ptr f < length (c # h) \<and> set (children f) \<subseteq> set (c # h) \<and> canonical X f \<and>
      hash_consistent X f \<and> (get_kind f = KTrue \<longrightarrow> f = True_f X) \<and>
      (get_kind f = KFalse \<longrightarrow> f = False_f X) \<and> (\<forall>g \<in> set (c # h). ptr f = ptr g \<longrightarrow> f = g)"
    if f: "f \<in> set h" for f
  proof (intro conjI)
    show "ptr f < length (c # h)" using heap_inv_ptr_less [OF inv f] by simp
    show "set (children f) \<subseteq> set (c # h)" using heap_inv_children [OF inv f] by auto
    show "canonical X f" by (rule heap_inv_canonical [OF inv f])
    show "hash_consistent X f" by (rule heap_inv_hash_consistent [OF inv f])
    show "get_kind f = KTrue \<longrightarrow> f = True_f X" using heap_inv_True [OF inv f] by simp
    show "get_kind f = KFalse \<longrightarrow> f = False_f X" using heap_inv_False [OF inv f] by simp
    show "\<forall>g \<in> set (c # h). ptr f = ptr g \<longrightarrow> f = g"
      using heap_inv_ptr_inj [OF inv f] below [OF f] by fastforce
  qed
  have "True_f X \<in> set (c # h)" "False_f X \<in> set (c # h)"
    using heap_inv_singletons [OF inv] by simp_all
  moreover have "\<forall>f \<in> set (c # h). ptr f < length (c # h) \<and> set (children f) \<subseteq> set (c # h) \<and>
      canonical X f \<and> hash_consistent X f \<and> (get_kind f = KTrue \<longrightarrow> f = True_f X) \<and>
      (get_kind f = KFalse \<longrightarrow> f = False_f X) \<and> (\<forall>g \<in> set (c # h). ptr f = ptr g \<longrightarrow> f = g)"
    using c_ok old_ok by (metis set_ConsD)
  ultimately show ?thesis unfolding heap_inv_def by (intro conjI)
qed

lemma heap_inv_forall:
  "heap_inv X h \<Longrightarrow> f \<in> set h \<Longrightarrow> heap_inv X (snd (forall X vars f h))"
  unfolding forall_def make_shared_simp snd_conv
  by (rule heap_inv_alloc)
     (simp_all add: heap_inv_canonical heap_inv_hash_consistent is_constant_def)

lemma heap_inv_and:
  assumes "heap_inv X h" and "f1 \<in> set h" and "f2 \<in> set h"
  shows "heap_inv X (snd (operator_and X f1 f2 h))"
proof (cases "is_constant f1 \<or> is_constant f2")
  case True
  then show ?thesis using assms(1) by (auto simp: operator_and_def is_constant_def)
next
  case False
  then have "snd (operator_and X f1 f2 h) =
      FormulaAnd (length h) (FormulaCell_hash X KAnd (hash_combine X (get_hash f1) (get_hash f2))) f1 f2 # h"
    by (simp add: operator_and_def is_constant_def make_shared_simp)
  moreover have "heap_inv X \<dots>"
    using assms False
    by (intro heap_inv_alloc)
       (simp_all add: heap_inv_canonical heap_inv_hash_consistent is_constant_def)
  ultimately show ?thesis by simp
qed

lemma heap_inv_or:
  assumes "heap_inv X h" and "f1 \<in> set h" and "f2 \<in> set h"
  shows "heap_inv X (snd (operator_or X f1 f2 h))"
proof (cases "is_constant f1 \<or> is_constant f2")
  case True
  then show ?thesis using assms(1) by (auto simp: operator_or_def is_constant_def)
next
  case False
  then have "snd (operator_or X f1 f2 h) =
      FormulaOr (length h) (FormulaCell_hash X KOr (hash_combine X (get_hash f1) (get_hash f2))) f1 f2 # h"
    by (simp add: operator_or_def is_constant_def make_shared_simp)
  moreover have "heap_inv X \<dots>"
    using assms False
    by (intro heap_inv_alloc)
       (simp_all add: heap_inv_canonical heap_inv_hash_consistent is_constant_def)
  ultimately show ?thesis by simp
qed

lemma heap_inv_not:
  assumes "heap_inv X h" and "f \<in> set h"
  shows "heap_inv X (snd (operator_not X f h))"
proof (cases "is_constant f")
  case True
  then show ?thesis using assms(1) by (auto simp: operator_not_def is_constant_def)
next
  case False
  then have "snd (operator_not X f h) =
      FormulaNot (length h) (FormulaCell_hash X KNot (get_hash f)) f # h"
    by (simp add: operator_not_def is_constant_def make_shared_simp)
  moreover have "heap_inv X \<dots>"
    using assms False
    by (intro heap_inv_alloc)
       (simp_all add: heap_inv_canonical heap_inv_hash_consistent is_constant_def)
  ultimately show ?thesis by simp
qed

lemma heap_inv_relational_cell:
  assumes "heap_inv X h" and "\<not> Expression_EqualTo X e1 e2"
  shows "heap_inv X (FormulaEq (length h) (relational_hash X KEq e1 e2) e1 e2 # h)"
    and "heap_inv X (FormulaNeq (length h) (relational_hash X KNeq e1 e2) e1 e2 # h)"
    and "heap_inv X (FormulaLt (length h) (relational_hash X KLt e1 e2) e1 e2 # h)"
    and "heap_inv X (FormulaLeq (length h) (relational_hash X KLeq e1 e2) e1 e2 # h)"
    and "heap_inv X (FormulaGt (length h) (relational_hash X KGt e1 e2) e1 e2 # h)"
    and "heap_inv X (FormulaGeq (length h) (relational_hash X KGeq e1 e2) e1 e2 # h)"
  using assms by (simp_all add: heap_inv_alloc is_constant_def)

lemma heap_inv_relational:
  assumes "heap_inv X h"
  shows "heap_inv X (snd (operator_eq X e1 e2 h))"
    and "heap_inv X (snd (operator_neq X e1 e2 h))"
    and "heap_inv X (snd (operator_lt X e1 e2 h))"
    and "heap_inv X (snd (operator_leq X e1 e2 h))"
    and "heap_inv X (snd (operator_gt X e1 e2 h))"
    and "heap_inv X (snd (operator_geq X e1 e2 h))"
  using assms heap_inv_relational_cell [OF assms, of e1 e2]
  by (simp_all add: operator_eq_def operator_neq_def operator_lt_def operator_leq_def
        operator_gt_def operator_geq_def make_shared_simp)

lemma reach_heap_inv: "reach X h \<Longrightarrow> heap_inv X h"
  by (induction rule: reach.induct)
     (simp_all add: heap_inv_initial heap_inv_forall heap_inv_and heap_inv_or heap_inv_not
        heap_inv_relational)

subsection \<open>Evaluation of a quantified formula\<close>

text \<open>
  Claim C3. For every set of variables, every formula and every environment,
  evaluating \<open>forall(vars, f)\<close> throws the runtime error "not implemented yet".
  \<open>Evaluate\<close> is a function of the formula and the environment only: it returns no
  heap and no environment, so nothing is changed before the failure.
\<close>

theorem forall_Evaluate_not_implemented:
  "Evaluate X (fst (forall X vars f h)) env = Inl (runtime_error ''not implemented yet'')"
  by (simp add: forall_def make_shared_simp)

subsection \<open>Negation\<close>

text \<open>
  Claim C6. \<open>not(True())\<close> is \<open>False()\<close> and \<open>not(False())\<close> is \<open>True()\<close>, without
  allocation. For a formula \<open>f\<close> of any other kind, \<open>not(f)\<close> allocates a \<open>Not\<close> node
  over \<open>f\<close>, and \<open>not(not(f))\<close> allocates a second \<open>Not\<close> node whose child is the first:
  double negation is not collapsed.
\<close>

theorem negation_laws:
  "operator_not X (True_f X) h = (False_f X, h) \<and>
   operator_not X (False_f X) h = (True_f X, h) \<and>
   (get_kind f \<noteq> KTrue \<and> get_kind f \<noteq> KFalse \<longrightarrow>
      (let (g, h1) = operator_not X f h; (r, h2) = operator_not X g h1
       in get_kind g = KNot \<and> cell_f g = f \<and>
          get_kind r = KNot \<and> cell_f r = g \<and> h2 = r # g # h))"
  by (simp add: operator_not_def make_shared_simp)

theorem negation_laws_witness:
  "get_kind (FormulaEq 2 3 (Var 0) (Constant 1)) \<noteq> KTrue \<and>
   get_kind (FormulaEq 2 3 (Var 0) (Constant 1)) \<noteq> KFalse \<and>
   operator_not sample (fst (operator_not sample (FormulaEq 2 3 (Var 0) (Constant 1)) (FormulaEq 2 3 (Var 0) (Constant 1) # initial_heap sample))) 
      (snd (operator_not sample (FormulaEq 2 3 (Var 0) (Constant 1)) (FormulaEq 2 3 (Var 0) (Constant 1) # initial_heap sample)))
   = (FormulaNot 4 23 (FormulaNot 3 13 (FormulaEq 2 3 (Var 0) (Constant 1))),
      [FormulaNot 4 23 (FormulaNot 3 13 (FormulaEq 2 3 (Var 0) (Constant 1))),
       FormulaNot 3 13 (FormulaEq 2 3 (Var 0) (Constant 1)),
       FormulaEq 2 3 (Var 0) (Constant 1), False_f sample, True_f sample])"
  using negation_laws [of sample "FormulaEq 2 3 (Var 0) (Constant 1) # initial_heap sample" "FormulaEq 2 3 (Var 0) (Constant 1)"]
  by (simp add: operator_not_def make_shared_simp sample_def FormulaCell_hash_def get_hash_def initial_heap_def)


subsection \<open>EqualTo against structural equality\<close>

lemma structurally_equal_refl:
  "\<forall>e. Expression_EqualTo X e e \<Longrightarrow> structurally_equal X f f"
  by (induction f) simp_all

lemma structurally_equal_hash:
  assumes c: "\<forall>e1 e2. Expression_EqualTo X e1 e2 \<longrightarrow> Expression_get_hash X e1 = Expression_get_hash X e2"
  shows "hash_consistent X f \<Longrightarrow> hash_consistent X g \<Longrightarrow> structurally_equal X f g
         \<Longrightarrow> get_hash f = get_hash g"
proof (induction f arbitrary: g)
  case (FormulaTrue p h)
  then show ?case by (cases g) (simp_all add: get_hash_def)
next
  case (FormulaFalse p h)
  then show ?case by (cases g) (simp_all add: get_hash_def)
next
  case (FormulaEq p h e1 e2)
  then show ?case using c by (cases g) (auto simp: get_hash_def relational_hash_def)
next
  case (FormulaNeq p h e1 e2)
  then show ?case using c by (cases g) (auto simp: get_hash_def relational_hash_def)
next
  case (FormulaGt p h e1 e2)
  then show ?case using c by (cases g) (auto simp: get_hash_def relational_hash_def)
next
  case (FormulaGeq p h e1 e2)
  then show ?case using c by (cases g) (auto simp: get_hash_def relational_hash_def)
next
  case (FormulaLt p h e1 e2)
  then show ?case using c by (cases g) (auto simp: get_hash_def relational_hash_def)
next
  case (FormulaLeq p h e1 e2)
  then show ?case using c by (cases g) (auto simp: get_hash_def relational_hash_def)
next
  case (FormulaAnd p h f1 f2)
  show ?case
  proof (cases g)
    case (FormulaAnd q k g1 g2)
    with FormulaAnd.prems have "get_hash f1 = get_hash g1" "get_hash f2 = get_hash g2"
      by (simp_all add: FormulaAnd.IH)
    with FormulaAnd FormulaAnd.prems show ?thesis by (simp add: get_hash_def)
  qed (use FormulaAnd.prems in simp_all)
next
  case (FormulaOr p h f1 f2)
  show ?case
  proof (cases g)
    case (FormulaOr q k g1 g2)
    with FormulaOr.prems have "get_hash f1 = get_hash g1" "get_hash f2 = get_hash g2"
      by (simp_all add: FormulaOr.IH)
    with FormulaOr FormulaOr.prems show ?thesis by (simp add: get_hash_def)
  qed (use FormulaOr.prems in simp_all)
next
  case (FormulaNot p h f)
  show ?case
  proof (cases g)
    case (FormulaNot q k g1)
    with FormulaNot.prems have "get_hash f = get_hash g1"
      by (simp add: FormulaNot.IH)
    with FormulaNot FormulaNot.prems show ?thesis by (simp add: get_hash_def)
  qed (use FormulaNot.prems in simp_all)
next
  case (FormulaForall p h vars f)
  show ?case
  proof (cases g)
    case (FormulaForall q k ws g1)
    with FormulaForall.prems have "get_hash f = get_hash g1"
      by (simp add: FormulaForall.IH)
    with FormulaForall FormulaForall.prems show ?thesis by (simp add: get_hash_def)
  qed (use FormulaForall.prems in simp_all)
qed

declare EqualTo.simps(1) [simp del]

lemma EqualTo_heap_cases:
  assumes "well_formed X h" and "f \<in> set h" and "g \<in> set h" and "EqualTo X f g"
  shows "f = g \<or> (get_kind f = get_kind g \<and> get_hash f = get_hash g \<and> FormulaCell_EqualTo X f g)"
proof (cases "ptr f = ptr g")
  case True
  then show ?thesis using well_formed_ptr_inj [OF assms(1-3)] by simp
next
  case False
  then show ?thesis using assms(4) by (simp add: EqualTo.simps(1) split: if_splits)
qed

lemma EqualTo_imp_structurally_equal:
  assumes inv: "well_formed X h" and refl: "\<forall>e. Expression_EqualTo X e e"
  shows "f \<in> set h \<Longrightarrow> g \<in> set h \<Longrightarrow> EqualTo X f g \<Longrightarrow> structurally_equal X f g"
proof (induction f arbitrary: g)
  case (FormulaTrue p hs)
  from EqualTo_heap_cases [OF inv FormulaTrue.prems] show ?case by auto
next
  case (FormulaFalse p hs)
  from EqualTo_heap_cases [OF inv FormulaFalse.prems] show ?case by auto
next
  case (FormulaEq p hs e1 e2)
  from EqualTo_heap_cases [OF inv FormulaEq.prems] show ?case
  proof
    assume "FormulaEq p hs e1 e2 = g"
    then show ?thesis using structurally_equal_refl [OF refl, of g] by simp
  next
    assume "get_kind (FormulaEq p hs e1 e2) = get_kind g \<and> get_hash (FormulaEq p hs e1 e2) = get_hash g
      \<and> FormulaCell_EqualTo X (FormulaEq p hs e1 e2) g"
    then show ?thesis by simp
  qed
next
  case (FormulaNeq p hs e1 e2)
  from EqualTo_heap_cases [OF inv FormulaNeq.prems] show ?case
  proof
    assume "FormulaNeq p hs e1 e2 = g"
    then show ?thesis using structurally_equal_refl [OF refl, of g] by simp
  next
    assume "get_kind (FormulaNeq p hs e1 e2) = get_kind g \<and> get_hash (FormulaNeq p hs e1 e2) = get_hash g
      \<and> FormulaCell_EqualTo X (FormulaNeq p hs e1 e2) g"
    then show ?thesis by simp
  qed
next
  case (FormulaGt p hs e1 e2)
  from EqualTo_heap_cases [OF inv FormulaGt.prems] show ?case
  proof
    assume "FormulaGt p hs e1 e2 = g"
    then show ?thesis using structurally_equal_refl [OF refl, of g] by simp
  next
    assume "get_kind (FormulaGt p hs e1 e2) = get_kind g \<and> get_hash (FormulaGt p hs e1 e2) = get_hash g
      \<and> FormulaCell_EqualTo X (FormulaGt p hs e1 e2) g"
    then show ?thesis by simp
  qed
next
  case (FormulaGeq p hs e1 e2)
  from EqualTo_heap_cases [OF inv FormulaGeq.prems] show ?case
  proof
    assume "FormulaGeq p hs e1 e2 = g"
    then show ?thesis using structurally_equal_refl [OF refl, of g] by simp
  next
    assume "get_kind (FormulaGeq p hs e1 e2) = get_kind g \<and> get_hash (FormulaGeq p hs e1 e2) = get_hash g
      \<and> FormulaCell_EqualTo X (FormulaGeq p hs e1 e2) g"
    then show ?thesis by simp
  qed
next
  case (FormulaLt p hs e1 e2)
  from EqualTo_heap_cases [OF inv FormulaLt.prems] show ?case
  proof
    assume "FormulaLt p hs e1 e2 = g"
    then show ?thesis using structurally_equal_refl [OF refl, of g] by simp
  next
    assume "get_kind (FormulaLt p hs e1 e2) = get_kind g \<and> get_hash (FormulaLt p hs e1 e2) = get_hash g
      \<and> FormulaCell_EqualTo X (FormulaLt p hs e1 e2) g"
    then show ?thesis by simp
  qed
next
  case (FormulaLeq p hs e1 e2)
  from EqualTo_heap_cases [OF inv FormulaLeq.prems] show ?case
  proof
    assume "FormulaLeq p hs e1 e2 = g"
    then show ?thesis using structurally_equal_refl [OF refl, of g] by simp
  next
    assume "get_kind (FormulaLeq p hs e1 e2) = get_kind g \<and> get_hash (FormulaLeq p hs e1 e2) = get_hash g
      \<and> FormulaCell_EqualTo X (FormulaLeq p hs e1 e2) g"
    then show ?thesis by simp
  qed
next
  case (FormulaAnd p hs f1 f2)
  from EqualTo_heap_cases [OF inv FormulaAnd.prems] show ?case
  proof
    assume "FormulaAnd p hs f1 f2 = g"
    then show ?thesis using structurally_equal_refl [OF refl, of g] by simp
  next
    assume a: "get_kind (FormulaAnd p hs f1 f2) = get_kind g \<and> get_hash (FormulaAnd p hs f1 f2) = get_hash g
      \<and> FormulaCell_EqualTo X (FormulaAnd p hs f1 f2) g"
    then obtain q k g1 g2 where g: "g = FormulaAnd q k g1 g2" by (cases g) simp_all
    have "f1 \<in> set h" "f2 \<in> set h" "g1 \<in> set h" "g2 \<in> set h"
      using well_formed_children [OF inv FormulaAnd.prems(1)] well_formed_children [OF inv FormulaAnd.prems(2)] g
      by simp_all
    then show ?thesis using a g FormulaAnd.IH by simp
  qed
next
  case (FormulaOr p hs f1 f2)
  from EqualTo_heap_cases [OF inv FormulaOr.prems] show ?case
  proof
    assume "FormulaOr p hs f1 f2 = g"
    then show ?thesis using structurally_equal_refl [OF refl, of g] by simp
  next
    assume a: "get_kind (FormulaOr p hs f1 f2) = get_kind g \<and> get_hash (FormulaOr p hs f1 f2) = get_hash g
      \<and> FormulaCell_EqualTo X (FormulaOr p hs f1 f2) g"
    then obtain q k g1 g2 where g: "g = FormulaOr q k g1 g2" by (cases g) simp_all
    have "f1 \<in> set h" "f2 \<in> set h" "g1 \<in> set h" "g2 \<in> set h"
      using well_formed_children [OF inv FormulaOr.prems(1)] well_formed_children [OF inv FormulaOr.prems(2)] g
      by simp_all
    then show ?thesis using a g FormulaOr.IH by simp
  qed
next
  case (FormulaNot p hs f)
  from EqualTo_heap_cases [OF inv FormulaNot.prems] show ?case
  proof
    assume "FormulaNot p hs f = g"
    then show ?thesis using structurally_equal_refl [OF refl, of g] by simp
  next
    assume a: "get_kind (FormulaNot p hs f) = get_kind g \<and> get_hash (FormulaNot p hs f) = get_hash g
      \<and> FormulaCell_EqualTo X (FormulaNot p hs f) g"
    then obtain q k g1 where g: "g = FormulaNot q k g1" by (cases g) simp_all
    have "f \<in> set h" "g1 \<in> set h"
      using well_formed_children [OF inv FormulaNot.prems(1)] well_formed_children [OF inv FormulaNot.prems(2)] g
      by simp_all
    then show ?thesis using a g FormulaNot.IH by simp
  qed
next
  case (FormulaForall p hs vars f)
  from EqualTo_heap_cases [OF inv FormulaForall.prems] show ?case
  proof
    assume "FormulaForall p hs vars f = g"
    then show ?thesis using structurally_equal_refl [OF refl, of g] by simp
  next
    assume a: "get_kind (FormulaForall p hs vars f) = get_kind g \<and> get_hash (FormulaForall p hs vars f) = get_hash g
      \<and> FormulaCell_EqualTo X (FormulaForall p hs vars f) g"
    then obtain q k ws g1 where g: "g = FormulaForall q k ws g1" by (cases g) simp_all
    have "f \<in> set h" "g1 \<in> set h"
      using well_formed_children [OF inv FormulaForall.prems(1)] well_formed_children [OF inv FormulaForall.prems(2)] g
      by simp_all
    then show ?thesis using a g FormulaForall.IH by simp
  qed
qed

lemma structurally_equal_imp_EqualTo:
  assumes c: "\<forall>e1 e2. Expression_EqualTo X e1 e2 \<longrightarrow> Expression_get_hash X e1 = Expression_get_hash X e2"
  shows "hash_consistent X f \<Longrightarrow> hash_consistent X g \<Longrightarrow> structurally_equal X f g \<Longrightarrow> EqualTo X f g"
proof (induction f arbitrary: g)
  case (FormulaTrue p hs)
  from structurally_equal_hash [OF c FormulaTrue.prems] FormulaTrue.prems(3)
  show ?case by (subst EqualTo.simps(1)) simp
next
  case (FormulaFalse p hs)
  from structurally_equal_hash [OF c FormulaFalse.prems] FormulaFalse.prems(3)
  show ?case by (subst EqualTo.simps(1)) simp
next
  case (FormulaEq p hs e1 e2)
  from structurally_equal_hash [OF c FormulaEq.prems] FormulaEq.prems(3)
  show ?case by (subst EqualTo.simps(1)) simp
next
  case (FormulaNeq p hs e1 e2)
  from structurally_equal_hash [OF c FormulaNeq.prems] FormulaNeq.prems(3)
  show ?case by (subst EqualTo.simps(1)) simp
next
  case (FormulaGt p hs e1 e2)
  from structurally_equal_hash [OF c FormulaGt.prems] FormulaGt.prems(3)
  show ?case by (subst EqualTo.simps(1)) simp
next
  case (FormulaGeq p hs e1 e2)
  from structurally_equal_hash [OF c FormulaGeq.prems] FormulaGeq.prems(3)
  show ?case by (subst EqualTo.simps(1)) simp
next
  case (FormulaLt p hs e1 e2)
  from structurally_equal_hash [OF c FormulaLt.prems] FormulaLt.prems(3)
  show ?case by (subst EqualTo.simps(1)) simp
next
  case (FormulaLeq p hs e1 e2)
  from structurally_equal_hash [OF c FormulaLeq.prems] FormulaLeq.prems(3)
  show ?case by (subst EqualTo.simps(1)) simp
next
  case (FormulaAnd p hs f1 f2)
  from FormulaAnd.prems(3) obtain q k g1 g2 where g: "g = FormulaAnd q k g1 g2" by (cases g) simp_all
  have "EqualTo X f1 g1" "EqualTo X f2 g2"
    using FormulaAnd.IH FormulaAnd.prems g by simp_all
  with structurally_equal_hash [OF c FormulaAnd.prems] FormulaAnd.prems(3) g
  show ?case by (subst EqualTo.simps(1)) simp
next
  case (FormulaOr p hs f1 f2)
  from FormulaOr.prems(3) obtain q k g1 g2 where g: "g = FormulaOr q k g1 g2" by (cases g) simp_all
  have "EqualTo X f1 g1" "EqualTo X f2 g2"
    using FormulaOr.IH FormulaOr.prems g by simp_all
  with structurally_equal_hash [OF c FormulaOr.prems] FormulaOr.prems(3) g
  show ?case by (subst EqualTo.simps(1)) simp
next
  case (FormulaNot p hs f)
  from FormulaNot.prems(3) obtain q k g1 where g: "g = FormulaNot q k g1" by (cases g) simp_all
  have "EqualTo X f g1"
    using FormulaNot.IH FormulaNot.prems g by simp_all
  with structurally_equal_hash [OF c FormulaNot.prems] FormulaNot.prems(3) g
  show ?case by (subst EqualTo.simps(1)) simp
next
  case (FormulaForall p hs vars f)
  from FormulaForall.prems(3) obtain q k ws g1 where g: "g = FormulaForall q k ws g1" by (cases g) simp_all
  have "EqualTo X f g1"
    using FormulaForall.IH FormulaForall.prems g by simp_all
  with structurally_equal_hash [OF c FormulaForall.prems] FormulaForall.prems(3) g
  show ?case by (subst EqualTo.simps(1)) simp
qed


subsection \<open>The sample heap\<close>

lemma sample_contract: "Expression_contract sample"
  by (simp add: Expression_contract_def sample_def)

lemma reach_sample_heap: "reach sample sample_heap"
  unfolding sample_heap_def by (intro reach_eq reach_initial)

lemma sample_heap_cells:
  "sample_heap = [FormulaEq 4 3 (Var 0) (Constant 1), FormulaEq 3 5 (Var 1) (Var 0),
     FormulaEq 2 5 (Var 0) (Var 1), False_f sample, True_f sample]"
  by (simp add: sample_heap_def operator_eq_def make_shared_simp initial_heap_def
        relational_hash_def FormulaCell_hash_def sample_def)

subsection \<open>Hashes and equality\<close>

text \<open>
  Claim C1. For formulas \<open>f1\<close>, \<open>f2\<close> built through the public constructors, with
  \<open>Expression\<close> honouring its hash/equality contract: if \<open>f1.EqualTo(f2)\<close> then the
  hashes are equal; structurally equal formulas have equal hashes; and structurally
  distinct formulas whose hashes collide are still not \<open>EqualTo\<close> each other.
\<close>

theorem hash_equality_contract:
  assumes "reach X h" and "f1 \<in> set h" and "f2 \<in> set h" and "Expression_contract X"
  shows "(EqualTo X f1 f2 \<longrightarrow> get_hash f1 = get_hash f2) \<and>
         (structurally_equal X f1 f2 \<longrightarrow> get_hash f1 = get_hash f2) \<and>
         (\<not> structurally_equal X f1 f2 \<and> get_hash f1 = get_hash f2 \<longrightarrow> \<not> EqualTo X f1 f2)"
proof -
  note inv = reach_heap_inv [OF assms(1)]
  note wf = heap_inv_well_formed [OF inv]
  from assms(4) have refl: "\<forall>e. Expression_EqualTo X e e"
    and c: "\<forall>e1 e2. Expression_EqualTo X e1 e2 \<longrightarrow> Expression_get_hash X e1 = Expression_get_hash X e2"
    by (simp_all add: Expression_contract_def)
  have "get_hash f1 = get_hash f2" if "EqualTo X f1 f2"
    using EqualTo_heap_cases [OF wf assms(2,3) that] by auto
  moreover have "get_hash f1 = get_hash f2" if "structurally_equal X f1 f2"
    using structurally_equal_hash [OF c _ _ that] heap_inv_hash_consistent [OF inv] assms(2,3)
    by simp
  moreover have "structurally_equal X f1 f2" if "EqualTo X f1 f2"
    using EqualTo_imp_structurally_equal [OF wf refl assms(2,3) that] .
  ultimately show ?thesis by blast
qed

theorem hash_equality_contract_witness:
  "reach sample sample_heap \<and> Expression_contract sample \<and>
   FormulaEq 2 5 (Var 0) (Var 1) \<in> set sample_heap \<and>
   FormulaEq 3 5 (Var 1) (Var 0) \<in> set sample_heap \<and>
   EqualTo sample (FormulaEq 2 5 (Var 0) (Var 1)) (FormulaEq 2 5 (Var 0) (Var 1)) \<and>
   structurally_equal sample (FormulaEq 2 5 (Var 0) (Var 1)) (FormulaEq 2 5 (Var 0) (Var 1)) \<and>
   \<not> structurally_equal sample (FormulaEq 2 5 (Var 0) (Var 1)) (FormulaEq 3 5 (Var 1) (Var 0)) \<and>
   get_hash (FormulaEq 2 5 (Var 0) (Var 1)) = get_hash (FormulaEq 3 5 (Var 1) (Var 0)) \<and>
   \<not> EqualTo sample (FormulaEq 2 5 (Var 0) (Var 1)) (FormulaEq 3 5 (Var 1) (Var 0))"
  using hash_equality_contract [OF reach_sample_heap _ _ sample_contract,
      of "FormulaEq 2 5 (Var 0) (Var 1)" "FormulaEq 2 5 (Var 0) (Var 1)"]
    hash_equality_contract [OF reach_sample_heap _ _ sample_contract,
      of "FormulaEq 2 5 (Var 0) (Var 1)" "FormulaEq 3 5 (Var 1) (Var 0)"]
    reach_sample_heap sample_contract
  by (simp add: sample_heap_cells EqualTo.simps(1) get_hash_def) (simp add: sample_def)

subsection \<open>Identity and annihilator laws\<close>

text \<open>
  Claim C4. For every formula \<open>f\<close> built through the public constructors and in both
  operand orders: \<open>and(True(), f)\<close> is \<open>f\<close>, \<open>and(False(), f)\<close> is \<open>False()\<close>,
  \<open>or(True(), f)\<close> is \<open>True()\<close> and \<open>or(False(), f)\<close> is \<open>f\<close>. The constructor
  returns that very handle and leaves the heap as it was: no node is allocated.
\<close>

theorem identity_annihilator_laws:
  assumes "reach X h" and "f \<in> set h"
  shows "operator_and X (True_f X) f h = (f, h) \<and>
         operator_and X f (True_f X) h = (f, h) \<and>
         operator_and X (False_f X) f h = (False_f X, h) \<and>
         operator_and X f (False_f X) h = (False_f X, h) \<and>
         operator_or X (True_f X) f h = (True_f X, h) \<and>
         operator_or X f (True_f X) h = (True_f X, h) \<and>
         operator_or X (False_f X) f h = (f, h) \<and>
         operator_or X f (False_f X) h = (f, h)"
proof -
  note inv = reach_heap_inv [OF assms(1)]
  have t: "get_kind f = KTrue \<Longrightarrow> f = True_f X" and ff: "get_kind f = KFalse \<Longrightarrow> f = False_f X"
    using heap_inv_True [OF inv assms(2)] heap_inv_False [OF inv assms(2)] by simp_all
  show ?thesis using t ff by (auto simp: operator_and_def operator_or_def)
qed

theorem identity_annihilator_laws_witness:
  "reach sample sample_heap \<and> FormulaEq 4 3 (Var 0) (Constant 1) \<in> set sample_heap \<and>
   operator_and sample (True_f sample) (FormulaEq 4 3 (Var 0) (Constant 1)) sample_heap
     = (FormulaEq 4 3 (Var 0) (Constant 1), sample_heap) \<and>
   operator_or sample (FormulaEq 4 3 (Var 0) (Constant 1)) (True_f sample) sample_heap
     = (True_f sample, sample_heap)"
  using identity_annihilator_laws [OF reach_sample_heap, of "FormulaEq 4 3 (Var 0) (Constant 1)"]
    reach_sample_heap
  by (simp add: sample_heap_cells)

subsection \<open>Relational builders\<close>

lemma fresh_next: "heap_inv X h \<Longrightarrow> ptr f = length h \<Longrightarrow> fresh h f"
  using heap_inv_ptr_less [of X h] by (fastforce simp: fresh_def)

text \<open>
  Claim C5. For an expression \<open>e\<close> structurally equal to itself, \<open>eq(e,e)\<close>,
  \<open>leq(e,e)\<close> and \<open>geq(e,e)\<close> are \<open>True()\<close>, and \<open>neq(e,e)\<close>, \<open>lt(e,e)\<close> and
  \<open>gt(e,e)\<close> are \<open>False()\<close>. For structurally distinct \<open>e1\<close>, \<open>e2\<close> each builder
  allocates a node of the matching kind at an address no existing cell has, holding
  \<open>e1\<close> and \<open>e2\<close> in that order.
\<close>

theorem relational_builders:
  "(Expression_EqualTo X e e \<longrightarrow>
      operator_eq X e e h = (True_f X, h) \<and> operator_neq X e e h = (False_f X, h) \<and>
      operator_lt X e e h = (False_f X, h) \<and> operator_leq X e e h = (True_f X, h) \<and>
      operator_gt X e e h = (False_f X, h) \<and> operator_geq X e e h = (True_f X, h)) \<and>
   (reach X h \<and> \<not> Expression_EqualTo X e1 e2 \<longrightarrow>
      (let (f, h') = operator_eq X e1 e2 h
       in get_kind f = KEq \<and> cell_e1 f = e1 \<and> cell_e2 f = e2 \<and> fresh h f \<and> h' = f # h) \<and>
      (let (f, h') = operator_neq X e1 e2 h
       in get_kind f = KNeq \<and> cell_e1 f = e1 \<and> cell_e2 f = e2 \<and> fresh h f \<and> h' = f # h) \<and>
      (let (f, h') = operator_lt X e1 e2 h
       in get_kind f = KLt \<and> cell_e1 f = e1 \<and> cell_e2 f = e2 \<and> fresh h f \<and> h' = f # h) \<and>
      (let (f, h') = operator_leq X e1 e2 h
       in get_kind f = KLeq \<and> cell_e1 f = e1 \<and> cell_e2 f = e2 \<and> fresh h f \<and> h' = f # h) \<and>
      (let (f, h') = operator_gt X e1 e2 h
       in get_kind f = KGt \<and> cell_e1 f = e1 \<and> cell_e2 f = e2 \<and> fresh h f \<and> h' = f # h) \<and>
      (let (f, h') = operator_geq X e1 e2 h
       in get_kind f = KGeq \<and> cell_e1 f = e1 \<and> cell_e2 f = e2 \<and> fresh h f \<and> h' = f # h))"
proof -
  have "fresh h f" if "reach X h" and "ptr f = length h" for f :: "'a Formula"
    using fresh_next [OF reach_heap_inv [OF that(1)] that(2)] .
  then show ?thesis
    by (simp add: operator_eq_def operator_neq_def operator_lt_def operator_leq_def
          operator_gt_def operator_geq_def make_shared_simp)
qed

theorem relational_builders_witness:
  "Expression_EqualTo sample (Var 0) (Var 0) \<and>
   operator_eq sample (Var 0) (Var 0) sample_heap = (True_f sample, sample_heap) \<and>
   operator_lt sample (Var 0) (Var 0) sample_heap = (False_f sample, sample_heap) \<and>
   reach sample sample_heap \<and> \<not> Expression_EqualTo sample (Var 0) (Constant 1) \<and>
   operator_lt sample (Var 0) (Constant 1) sample_heap =
     (FormulaLt 5 7 (Var 0) (Constant 1), FormulaLt 5 7 (Var 0) (Constant 1) # sample_heap) \<and>
   fresh sample_heap (FormulaLt 5 7 (Var 0) (Constant 1))"
proof -
  have a: "Expression_EqualTo sample (Var 0) (Var 0)"
    and b: "\<not> Expression_EqualTo sample (Var 0) (Constant 1)"
    by (simp_all add: sample_def)
  have c: "operator_lt sample (Var 0) (Constant 1) sample_heap =
     (FormulaLt 5 7 (Var 0) (Constant 1), FormulaLt 5 7 (Var 0) (Constant 1) # sample_heap)"
    by (simp add: sample_heap_cells operator_lt_def make_shared_simp relational_hash_def
          FormulaCell_hash_def sample_def)
  show ?thesis
    using relational_builders [of sample "Var 0" sample_heap "Var 0" "Constant 1"]
      a b c reach_sample_heap
    by simp
qed

subsection \<open>Canonical form\<close>

text \<open>Every constructor returns a handle to a cell of the heap it returns.\<close>

lemma constructor_result_in_heap:
  assumes "heap_inv X h"
  shows "fst (forall X vars f h) \<in> set (snd (forall X vars f h))"
    and "f1 \<in> set h \<Longrightarrow> f2 \<in> set h \<Longrightarrow> fst (operator_and X f1 f2 h) \<in> set (snd (operator_and X f1 f2 h))"
    and "f1 \<in> set h \<Longrightarrow> f2 \<in> set h \<Longrightarrow> fst (operator_or X f1 f2 h) \<in> set (snd (operator_or X f1 f2 h))"
    and "fst (operator_not X f h) \<in> set (snd (operator_not X f h))"
    and "fst (operator_eq X e1 e2 h) \<in> set (snd (operator_eq X e1 e2 h))"
    and "fst (operator_neq X e1 e2 h) \<in> set (snd (operator_neq X e1 e2 h))"
    and "fst (operator_lt X e1 e2 h) \<in> set (snd (operator_lt X e1 e2 h))"
    and "fst (operator_leq X e1 e2 h) \<in> set (snd (operator_leq X e1 e2 h))"
    and "fst (operator_gt X e1 e2 h) \<in> set (snd (operator_gt X e1 e2 h))"
    and "fst (operator_geq X e1 e2 h) \<in> set (snd (operator_geq X e1 e2 h))"
  using heap_inv_singletons [OF assms]
  by (simp_all add: forall_def operator_and_def operator_or_def operator_not_def
        operator_eq_def operator_neq_def operator_lt_def operator_leq_def
        operator_gt_def operator_geq_def make_shared_simp)

text \<open>
  Claim C10. Every formula reachable through the public constructors is canonical at
  every node: no \<open>And\<close> or \<open>Or\<close> cell has a child of kind \<open>True\<close> or \<open>False\<close>, no
  \<open>Not\<close> cell has such a body, and no relational cell has structurally equal
  operands. Reachable heaps are closed under every constructor, and a constructor
  only adds a cell in front of the heap, so every operation preserves this.
\<close>

theorem canonical_form_invariant:
  assumes "reach X h" and "f \<in> set h"
  shows "canonical X f"
  using heap_inv_canonical [OF reach_heap_inv [OF assms(1)] assms(2)] .

theorem canonical_form_invariant_witness:
  "reach sample (snd (operator_and sample (FormulaEq 2 5 (Var 0) (Var 1))
       (FormulaEq 4 3 (Var 0) (Constant 1)) sample_heap)) \<and>
   FormulaAnd 5 16 (FormulaEq 2 5 (Var 0) (Var 1)) (FormulaEq 4 3 (Var 0) (Constant 1))
     \<in> set (snd (operator_and sample (FormulaEq 2 5 (Var 0) (Var 1))
       (FormulaEq 4 3 (Var 0) (Constant 1)) sample_heap)) \<and>
   canonical sample
     (FormulaAnd 5 16 (FormulaEq 2 5 (Var 0) (Var 1)) (FormulaEq 4 3 (Var 0) (Constant 1)))"
proof -
  have r: "reach sample (snd (operator_and sample (FormulaEq 2 5 (Var 0) (Var 1))
       (FormulaEq 4 3 (Var 0) (Constant 1)) sample_heap))"
    by (rule reach_and [OF reach_sample_heap]) (simp_all add: sample_heap_cells)
  have m: "FormulaAnd 5 16 (FormulaEq 2 5 (Var 0) (Var 1)) (FormulaEq 4 3 (Var 0) (Constant 1))
     \<in> set (snd (operator_and sample (FormulaEq 2 5 (Var 0) (Var 1))
       (FormulaEq 4 3 (Var 0) (Constant 1)) sample_heap))"
    by (simp add: operator_and_def make_shared_simp sample_heap_cells FormulaCell_hash_def
          get_hash_def sample_def)
  show ?thesis using canonical_form_invariant [OF r m] r m by simp
qed


subsection \<open>Free variables\<close>

lemma GetFreeVariables_constant:
  "get_kind f = KTrue \<or> get_kind f = KFalse \<Longrightarrow> GetFreeVariables X f = {}"
  by (cases f) simp_all

text \<open>
  Claim C7 as stated, \<open>free(and(f1,f2)) = free(f1) \<union> free(f2)\<close> for all formulas,
  fails where the constructor simplifies: \<open>and(False(), x0 == 1)\<close> is \<open>False()\<close>, which
  has no free variable, while the union is \<open>{x0}\<close>.
\<close>

theorem free_variables_of_and_counterexample:
  "operator_and sample (False_f sample) (FormulaEq 4 3 (Var 0) (Constant 1)) sample_heap
     = (False_f sample, sample_heap) \<and>
   GetFreeVariables sample (False_f sample) = {} \<and>
   GetFreeVariables sample (False_f sample)
     \<union> GetFreeVariables sample (FormulaEq 4 3 (Var 0) (Constant 1)) = {0} \<and>
   GetFreeVariables sample
     (fst (operator_and sample (False_f sample) (FormulaEq 4 3 (Var 0) (Constant 1)) sample_heap))
   \<noteq> GetFreeVariables sample (False_f sample)
     \<union> GetFreeVariables sample (FormulaEq 4 3 (Var 0) (Constant 1))"
  by (simp add: operator_and_def False_f_def) (simp add: sample_def)

text \<open>
  Claim C7, amended. \<open>free(and(f1,f2)) = free(f1) \<union> free(f2)\<close> when neither operand
  is of kind \<open>False\<close>, and \<open>free(and(f1,f2))\<close> is empty when one is;
  \<open>free(or(f1,f2)) = free(f1) \<union> free(f2)\<close> when neither operand is of kind \<open>True\<close>,
  and \<open>free(or(f1,f2))\<close> is empty when one is; \<open>free(not(f)) = free(f)\<close>;
  \<open>free(forall(vars,f)) = free(f) - vars\<close>; the free variables of each relational
  node, and of what each relational builder returns for structurally distinct
  operands, are \<open>vars(e1) \<union> vars(e2)\<close>; \<open>True()\<close> and \<open>False()\<close> have none.
\<close>

theorem free_variable_algebra:
  "(get_kind f1 \<noteq> KFalse \<and> get_kind f2 \<noteq> KFalse \<longrightarrow>
      GetFreeVariables X (fst (operator_and X f1 f2 h))
        = GetFreeVariables X f1 \<union> GetFreeVariables X f2) \<and>
   (get_kind f1 = KFalse \<or> get_kind f2 = KFalse \<longrightarrow>
      GetFreeVariables X (fst (operator_and X f1 f2 h)) = {}) \<and>
   (get_kind f1 \<noteq> KTrue \<and> get_kind f2 \<noteq> KTrue \<longrightarrow>
      GetFreeVariables X (fst (operator_or X f1 f2 h))
        = GetFreeVariables X f1 \<union> GetFreeVariables X f2) \<and>
   (get_kind f1 = KTrue \<or> get_kind f2 = KTrue \<longrightarrow>
      GetFreeVariables X (fst (operator_or X f1 f2 h)) = {}) \<and>
   GetFreeVariables X (fst (operator_not X f h)) = GetFreeVariables X f \<and>
   GetFreeVariables X (fst (forall X vars f h)) = GetFreeVariables X f - vars \<and>
   GetFreeVariables X (FormulaEq p hs e1 e2) = Expression_GetVariables X e1 \<union> Expression_GetVariables X e2 \<and>
   GetFreeVariables X (FormulaNeq p hs e1 e2) = Expression_GetVariables X e1 \<union> Expression_GetVariables X e2 \<and>
   GetFreeVariables X (FormulaLt p hs e1 e2) = Expression_GetVariables X e1 \<union> Expression_GetVariables X e2 \<and>
   GetFreeVariables X (FormulaLeq p hs e1 e2) = Expression_GetVariables X e1 \<union> Expression_GetVariables X e2 \<and>
   GetFreeVariables X (FormulaGt p hs e1 e2) = Expression_GetVariables X e1 \<union> Expression_GetVariables X e2 \<and>
   GetFreeVariables X (FormulaGeq p hs e1 e2) = Expression_GetVariables X e1 \<union> Expression_GetVariables X e2 \<and>
   (\<not> Expression_EqualTo X e1 e2 \<longrightarrow>
      GetFreeVariables X (fst (operator_eq X e1 e2 h)) = Expression_GetVariables X e1 \<union> Expression_GetVariables X e2 \<and>
      GetFreeVariables X (fst (operator_neq X e1 e2 h)) = Expression_GetVariables X e1 \<union> Expression_GetVariables X e2 \<and>
      GetFreeVariables X (fst (operator_lt X e1 e2 h)) = Expression_GetVariables X e1 \<union> Expression_GetVariables X e2 \<and>
      GetFreeVariables X (fst (operator_leq X e1 e2 h)) = Expression_GetVariables X e1 \<union> Expression_GetVariables X e2 \<and>
      GetFreeVariables X (fst (operator_gt X e1 e2 h)) = Expression_GetVariables X e1 \<union> Expression_GetVariables X e2 \<and>
      GetFreeVariables X (fst (operator_geq X e1 e2 h)) = Expression_GetVariables X e1 \<union> Expression_GetVariables X e2) \<and>
   GetFreeVariables X (True_f X) = {} \<and>
   GetFreeVariables X (False_f X) = {}"
proof -
  have a1: "GetFreeVariables X (fst (operator_and X f1 f2 h))
        = GetFreeVariables X f1 \<union> GetFreeVariables X f2"
    if "get_kind f1 \<noteq> KFalse \<and> get_kind f2 \<noteq> KFalse"
    using that GetFreeVariables_constant [of f1 X] GetFreeVariables_constant [of f2 X]
    by (simp add: operator_and_def make_shared_simp)
  have a2: "GetFreeVariables X (fst (operator_and X f1 f2 h)) = {}"
    if "get_kind f1 = KFalse \<or> get_kind f2 = KFalse"
    using that by (simp add: operator_and_def False_f_def)
  have o1: "GetFreeVariables X (fst (operator_or X f1 f2 h))
        = GetFreeVariables X f1 \<union> GetFreeVariables X f2"
    if "get_kind f1 \<noteq> KTrue \<and> get_kind f2 \<noteq> KTrue"
    using that GetFreeVariables_constant [of f1 X] GetFreeVariables_constant [of f2 X]
    by (simp add: operator_or_def make_shared_simp)
  have o2: "GetFreeVariables X (fst (operator_or X f1 f2 h)) = {}"
    if "get_kind f1 = KTrue \<or> get_kind f2 = KTrue"
    using that by (simp add: operator_or_def True_f_def)
  have n: "GetFreeVariables X (fst (operator_not X f h)) = GetFreeVariables X f"
    using GetFreeVariables_constant [of f X]
    by (simp add: operator_not_def make_shared_simp True_f_def False_f_def)
  have q: "GetFreeVariables X (fst (forall X vars f h)) = GetFreeVariables X f - vars"
    by (simp add: forall_def make_shared_simp)
  have r: "GetFreeVariables X (fst (operator_eq X e1 e2 h)) = Expression_GetVariables X e1 \<union> Expression_GetVariables X e2 \<and>
      GetFreeVariables X (fst (operator_neq X e1 e2 h)) = Expression_GetVariables X e1 \<union> Expression_GetVariables X e2 \<and>
      GetFreeVariables X (fst (operator_lt X e1 e2 h)) = Expression_GetVariables X e1 \<union> Expression_GetVariables X e2 \<and>
      GetFreeVariables X (fst (operator_leq X e1 e2 h)) = Expression_GetVariables X e1 \<union> Expression_GetVariables X e2 \<and>
      GetFreeVariables X (fst (operator_gt X e1 e2 h)) = Expression_GetVariables X e1 \<union> Expression_GetVariables X e2 \<and>
      GetFreeVariables X (fst (operator_geq X e1 e2 h)) = Expression_GetVariables X e1 \<union> Expression_GetVariables X e2"
    if "\<not> Expression_EqualTo X e1 e2"
    using that
    by (simp add: operator_eq_def operator_neq_def operator_lt_def operator_leq_def
          operator_gt_def operator_geq_def make_shared_simp)
  have c: "GetFreeVariables X (True_f X) = {}" "GetFreeVariables X (False_f X) = {}"
    by (simp_all add: True_f_def False_f_def)
  from a1 a2 o1 o2 n q r c show ?thesis by simp
qed

theorem free_variable_algebra_witness:
  "get_kind (FormulaEq 2 5 (Var 0) (Var 1)) \<noteq> KFalse \<and>
   get_kind (FormulaEq 4 3 (Var 0) (Constant 1)) \<noteq> KFalse \<and>
   GetFreeVariables sample (fst (operator_and sample (FormulaEq 2 5 (Var 0) (Var 1))
     (FormulaEq 4 3 (Var 0) (Constant 1)) sample_heap)) = {0, 1} \<and>
   get_kind (False_f sample) = KFalse \<and>
   GetFreeVariables sample (fst (operator_and sample (False_f sample)
     (FormulaEq 4 3 (Var 0) (Constant 1)) sample_heap)) = {} \<and>
   get_kind (FormulaEq 2 5 (Var 0) (Var 1)) \<noteq> KTrue \<and>
   get_kind (FormulaEq 4 3 (Var 0) (Constant 1)) \<noteq> KTrue \<and>
   GetFreeVariables sample (fst (operator_or sample (FormulaEq 2 5 (Var 0) (Var 1))
     (FormulaEq 4 3 (Var 0) (Constant 1)) sample_heap)) = {0, 1} \<and>
   get_kind (True_f sample) = KTrue \<and>
   GetFreeVariables sample (fst (operator_or sample
     (FormulaEq 4 3 (Var 0) (Constant 1)) (True_f sample) sample_heap)) = {} \<and>
   \<not> Expression_EqualTo sample (Var 0) (Var 1) \<and>
   GetFreeVariables sample (fst (operator_lt sample (Var 0) (Var 1) sample_heap)) = {0, 1} \<and>
   GetFreeVariables sample (fst (forall sample {0} (FormulaEq 2 5 (Var 0) (Var 1)) sample_heap)) = {1}"
  using free_variable_algebra [of "FormulaEq 2 5 (Var 0) (Var 1)" "FormulaEq 4 3 (Var 0) (Constant 1)"
      sample sample_heap "FormulaEq 2 5 (Var 0) (Var 1)" "{0}" 0 0 "Var 0" "Var 1"]
    free_variable_algebra [of "False_f sample" "FormulaEq 4 3 (Var 0) (Constant 1)"
      sample sample_heap "FormulaEq 2 5 (Var 0) (Var 1)" "{0}" 0 0 "Var 0" "Var 1"]
    free_variable_algebra [of "FormulaEq 4 3 (Var 0) (Constant 1)" "True_f sample"
      sample sample_heap "FormulaEq 2 5 (Var 0) (Var 1)" "{0}" 0 0 "Var 0" "Var 1"]
  by (simp add: sample_def insert_commute)


subsection \<open>The order of the tests in EqualTo\<close>

declare EqualTo_log.simps(1) [simp del]

lemma fst_log_first [simp]: "fst (log_first t r) = fst r"
  by (simp add: log_first_def)

lemma snd_log_first [simp]: "snd (log_first t r) = t # snd r"
  by (simp add: log_first_def)

lemma fst_Expression_EqualTo_log [simp]:
  "fst (Expression_EqualTo_log X e1 d1 e2 d2)
     = (Expression_EqualTo X e1 d1 \<and> Expression_EqualTo X e2 d2)"
  by (simp add: Expression_EqualTo_log_def)

lemma EqualTo_log_result_step:
  "fst (FormulaCell_EqualTo_log X f g) = FormulaCell_EqualTo X f g
   \<Longrightarrow> fst (EqualTo_log X f g) = EqualTo X f g"
  by (simp add: EqualTo.simps(1) EqualTo_log.simps(1))

lemma FormulaCell_EqualTo_log_result:
  "fst (FormulaCell_EqualTo_log X f g) = FormulaCell_EqualTo X f g"
proof (induction f arbitrary: g)
  case (FormulaAnd p h f1 f2)
  then show ?case by (simp add: EqualTo_log_result_step)
next
  case (FormulaOr p h f1 f2)
  then show ?case by (simp add: EqualTo_log_result_step)
next
  case (FormulaNot p h f)
  then show ?case by (simp add: EqualTo_log_result_step)
next
  case (FormulaForall p h vars f)
  then show ?case by (simp add: EqualTo_log_result_step)
qed simp_all

lemma EqualTo_log_result: "fst (EqualTo_log X f g) = EqualTo X f g"
  by (rule EqualTo_log_result_step) (rule FormulaCell_EqualTo_log_result)

text \<open>
  Claim C2. \<open>Formula::EqualTo\<close> runs its tests in this order and stops at the first
  that decides: the two handles point to the same node, and the result is true after
  that one test; otherwise the kinds differ, and the result is false after two tests;
  otherwise the hashes differ, and the result is false after three; otherwise the
  three tests are followed by the cell's own comparison, whose result is returned.
  The logged function returns what \<open>EqualTo\<close> returns, and on every well-formed set
  of formulas (with \<open>Expression\<close> honouring its contract) that is structural equality.
\<close>

theorem EqualTo_priority_order:
  "(ptr f1 = ptr f2 \<longrightarrow> EqualTo_log X f1 f2 = (True, [Same_node (ptr f1) (ptr f2)])) \<and>
   (ptr f1 \<noteq> ptr f2 \<and> get_kind f1 \<noteq> get_kind f2 \<longrightarrow>
      EqualTo_log X f1 f2
        = (False, [Same_node (ptr f1) (ptr f2), Same_kind (get_kind f1) (get_kind f2)])) \<and>
   (ptr f1 \<noteq> ptr f2 \<and> get_kind f1 = get_kind f2 \<and> get_hash f1 \<noteq> get_hash f2 \<longrightarrow>
      EqualTo_log X f1 f2
        = (False, [Same_node (ptr f1) (ptr f2), Same_kind (get_kind f1) (get_kind f2),
                   Same_hash (get_hash f1) (get_hash f2)])) \<and>
   (ptr f1 \<noteq> ptr f2 \<and> get_kind f1 = get_kind f2 \<and> get_hash f1 = get_hash f2 \<longrightarrow>
      EqualTo_log X f1 f2
        = (fst (FormulaCell_EqualTo_log X f1 f2),
           Same_node (ptr f1) (ptr f2) # Same_kind (get_kind f1) (get_kind f2) #
           Same_hash (get_hash f1) (get_hash f2) # snd (FormulaCell_EqualTo_log X f1 f2))) \<and>
   fst (EqualTo_log X f1 f2) = EqualTo X f1 f2 \<and>
   (well_formed X h \<and> f1 \<in> set h \<and> f2 \<in> set h \<and> Expression_contract X \<longrightarrow>
      EqualTo X f1 f2 = structurally_equal X f1 f2)"
proof -
  have "EqualTo X f1 f2 = structurally_equal X f1 f2"
    if wf: "well_formed X h" and f1: "f1 \<in> set h" and f2: "f2 \<in> set h"
      and ec: "Expression_contract X"
  proof -
    from ec have refl: "\<forall>e. Expression_EqualTo X e e"
      and c: "\<forall>e1 e2. Expression_EqualTo X e1 e2 \<longrightarrow> Expression_get_hash X e1 = Expression_get_hash X e2"
      by (simp_all add: Expression_contract_def)
    show ?thesis
      using EqualTo_imp_structurally_equal [OF wf refl f1 f2]
        structurally_equal_imp_EqualTo [OF c well_formed_hash_consistent [OF wf f1]
          well_formed_hash_consistent [OF wf f2]]
      by blast
  qed
  moreover have "fst (EqualTo_log X f1 f2) = EqualTo X f1 f2"
    by (rule EqualTo_log_result)
  ultimately show ?thesis
    by (simp add: EqualTo_log.simps(1) log_first_def)
qed

text \<open>
  Two \<open>True\<close> cells at different addresses: the three tests pass and
  \<open>FormulaTrue::EqualTo\<close> decides.
\<close>

lemma well_formed_two_True_cells: "well_formed sample (FormulaTrue 5 5 # sample_heap)"
  by (simp add: well_formed_def sample_heap_cells True_f_def False_f_def relational_hash_def
        FormulaCell_hash_def sample_def)

theorem EqualTo_priority_order_witness:
  "EqualTo_log sample (FormulaEq 2 5 (Var 0) (Var 1)) (FormulaEq 2 5 (Var 0) (Var 1))
     = (True, [Same_node 2 2]) \<and>
   EqualTo_log sample (FormulaEq 2 5 (Var 0) (Var 1)) (True_f sample)
     = (False, [Same_node 2 0, Same_kind KEq KTrue]) \<and>
   EqualTo_log sample (FormulaEq 2 5 (Var 0) (Var 1)) (FormulaEq 4 3 (Var 0) (Constant 1))
     = (False, [Same_node 2 4, Same_kind KEq KEq, Same_hash 5 3]) \<and>
   EqualTo_log sample (FormulaEq 2 5 (Var 0) (Var 1)) (FormulaEq 3 5 (Var 1) (Var 0))
     = (False, [Same_node 2 3, Same_kind KEq KEq, Same_hash 5 5, Cell_kind KEq KEq,
                Expression_test (Var 0) (Var 1)]) \<and>
   well_formed sample (FormulaTrue 5 5 # sample_heap) \<and>
   FormulaTrue 5 5 \<in> set (FormulaTrue 5 5 # sample_heap) \<and>
   True_f sample \<in> set (FormulaTrue 5 5 # sample_heap) \<and>
   Expression_contract sample \<and>
   EqualTo_log sample (FormulaTrue 5 5) (True_f sample)
     = (True, [Same_node 5 0, Same_kind KTrue KTrue, Same_hash 5 5, Cell_kind KTrue KTrue]) \<and>
   EqualTo sample (FormulaTrue 5 5) (True_f sample) \<and>
   structurally_equal sample (FormulaTrue 5 5) (True_f sample)"
proof -
  have t: "True_f sample = FormulaTrue 0 5"
    by (simp add: True_f_def FormulaCell_hash_def sample_def)
  have a: "EqualTo_log sample (FormulaEq 2 5 (Var 0) (Var 1)) (FormulaEq 2 5 (Var 0) (Var 1))
     = (True, [Same_node 2 2])"
    using EqualTo_priority_order [of "FormulaEq 2 5 (Var 0) (Var 1)"
        "FormulaEq 2 5 (Var 0) (Var 1)" sample sample_heap]
    by simp
  have b: "EqualTo_log sample (FormulaEq 2 5 (Var 0) (Var 1)) (True_f sample)
     = (False, [Same_node 2 0, Same_kind KEq KTrue])"
    using EqualTo_priority_order [of "FormulaEq 2 5 (Var 0) (Var 1)" "True_f sample"
        sample sample_heap]
    unfolding t by simp
  have c: "EqualTo_log sample (FormulaEq 2 5 (Var 0) (Var 1)) (FormulaEq 4 3 (Var 0) (Constant 1))
     = (False, [Same_node 2 4, Same_kind KEq KEq, Same_hash 5 3])"
    using EqualTo_priority_order [of "FormulaEq 2 5 (Var 0) (Var 1)"
        "FormulaEq 4 3 (Var 0) (Constant 1)" sample sample_heap]
    by (simp add: get_hash_def)
  have d: "EqualTo_log sample (FormulaEq 2 5 (Var 0) (Var 1)) (FormulaEq 3 5 (Var 1) (Var 0))
     = (False, [Same_node 2 3, Same_kind KEq KEq, Same_hash 5 5, Cell_kind KEq KEq,
                Expression_test (Var 0) (Var 1)])"
    using EqualTo_priority_order [of "FormulaEq 2 5 (Var 0) (Var 1)"
        "FormulaEq 3 5 (Var 1) (Var 0)" sample sample_heap]
    by (simp add: get_hash_def Expression_EqualTo_log_def sample_def)
  have m: "FormulaTrue 5 5 \<in> set (FormulaTrue 5 5 # sample_heap)"
    "True_f sample \<in> set (FormulaTrue 5 5 # sample_heap)"
    by (simp_all add: sample_heap_cells)
  note two = EqualTo_priority_order [of "FormulaTrue 5 5" "True_f sample" sample
      "FormulaTrue 5 5 # sample_heap"]
  have e: "EqualTo_log sample (FormulaTrue 5 5) (True_f sample)
     = (True, [Same_node 5 0, Same_kind KTrue KTrue, Same_hash 5 5, Cell_kind KTrue KTrue])"
    using two unfolding t by (simp add: get_hash_def)
  have s: "structurally_equal sample (FormulaTrue 5 5) (True_f sample)"
    by simp
  from two well_formed_two_True_cells m sample_contract s
  have q: "EqualTo sample (FormulaTrue 5 5) (True_f sample)"
    by blast
  from a b c d e m s q well_formed_two_True_cells sample_contract
  show ?thesis by blast
qed

subsection \<open>Evaluation against the comparison of the operands\<close>

lemma Evaluate_constant:
  "get_kind f = KTrue \<Longrightarrow> Evaluate X f env = Inr True"
  "get_kind f = KFalse \<Longrightarrow> Evaluate X f env = Inr False"
  by (cases f; simp)+

lemma double_less_irrefl [simp]: "\<not> double_less a a"
  by (cases a) simp_all

lemma double_eq_same: "double_eq a b \<Longrightarrow> a = b"
  by (simp add: double_eq_def)

lemma double_eq_NaN [simp]: "\<not> double_eq NaN b" "\<not> double_eq a NaN"
  by (simp_all add: double_eq_def)

text \<open>
  Claim C8 as stated fails for structurally equal operands whose value is NaN:
  \<open>x0 == x0\<close> is \<open>True()\<close>, which evaluates to true under every environment, while
  with \<open>x0\<close> bound to NaN the comparison \<open>x0.Evaluate(env) == x0.Evaluate(env)\<close> of
  two NaN is false.
\<close>

theorem evaluation_of_equal_operands_counterexample:
  "Expression_EqualTo sample (Var 0) (Var 0) \<and>
   Expression_Evaluate sample (Var 0) [0 \<mapsto> NaN] = Inr NaN \<and>
   operator_eq sample (Var 0) (Var 0) sample_heap = (True_f sample, sample_heap) \<and>
   Evaluate sample (fst (operator_eq sample (Var 0) (Var 0) sample_heap)) [0 \<mapsto> NaN] = Inr True \<and>
   \<not> double_eq NaN NaN \<and>
   Evaluate sample (fst (operator_eq sample (Var 0) (Var 0) sample_heap)) [0 \<mapsto> NaN]
     \<noteq> Inr (double_eq NaN NaN)"
  by (simp add: operator_eq_def True_f_def sample_def)

text \<open>
  Claim C8, amended. Let \<open>e1\<close> and \<open>e2\<close> evaluate to \<open>v1\<close> and \<open>v2\<close> under \<open>env\<close>.
  If \<open>e1\<close> and \<open>e2\<close> are not structurally equal, each relational builder's formula
  evaluates to the matching comparison of \<open>v1\<close> and \<open>v2\<close>. If they are structurally
  equal, the builder returns \<open>True()\<close> (eq, leq, geq) or \<open>False()\<close> (neq, lt, gt),
  which evaluates to that constant whatever the environment; this is the matching
  comparison of \<open>v1\<close> and \<open>v2\<close> exactly when that comparison gives the constant:
  for lt and gt whenever \<open>v1\<close> and \<open>v2\<close> are the same value, for eq, neq, leq and geq
  whenever they are the same value and not NaN. When \<open>f1\<close> and \<open>f2\<close> evaluate to
  \<open>b1\<close> and \<open>b2\<close>, \<open>and(f1,f2)\<close> evaluates to their conjunction and \<open>or(f1,f2)\<close> to
  their disjunction; when \<open>f\<close> evaluates to \<open>b\<close>, \<open>not(f)\<close> evaluates to its negation.
\<close>

theorem evaluation_consistency:
  "(Expression_Evaluate X e1 env = Inr v1 \<and> Expression_Evaluate X e2 env = Inr v2 \<and>
    (Expression_EqualTo X e1 e2 \<longrightarrow> double_eq v1 v2) \<longrightarrow>
      Evaluate X (fst (operator_eq X e1 e2 h)) env = Inr (double_eq v1 v2) \<and>
      Evaluate X (fst (operator_neq X e1 e2 h)) env = Inr (double_neq v1 v2)) \<and>
   (Expression_Evaluate X e1 env = Inr v1 \<and> Expression_Evaluate X e2 env = Inr v2 \<and>
    (Expression_EqualTo X e1 e2 \<longrightarrow> \<not> double_less v1 v2) \<longrightarrow>
      Evaluate X (fst (operator_lt X e1 e2 h)) env = Inr (double_less v1 v2)) \<and>
   (Expression_Evaluate X e1 env = Inr v1 \<and> Expression_Evaluate X e2 env = Inr v2 \<and>
    (Expression_EqualTo X e1 e2 \<longrightarrow> double_less_eq v1 v2) \<longrightarrow>
      Evaluate X (fst (operator_leq X e1 e2 h)) env = Inr (double_less_eq v1 v2)) \<and>
   (Expression_Evaluate X e1 env = Inr v1 \<and> Expression_Evaluate X e2 env = Inr v2 \<and>
    (Expression_EqualTo X e1 e2 \<longrightarrow> \<not> double_greater v1 v2) \<longrightarrow>
      Evaluate X (fst (operator_gt X e1 e2 h)) env = Inr (double_greater v1 v2)) \<and>
   (Expression_Evaluate X e1 env = Inr v1 \<and> Expression_Evaluate X e2 env = Inr v2 \<and>
    (Expression_EqualTo X e1 e2 \<longrightarrow> double_greater_eq v1 v2) \<longrightarrow>
      Evaluate X (fst (operator_geq X e1 e2 h)) env = Inr (double_greater_eq v1 v2)) \<and>
   (Expression_EqualTo X e1 e2 \<longrightarrow>
      Evaluate X (fst (operator_eq X e1 e2 h)) env = Inr True \<and>
      Evaluate X (fst (operator_neq X e1 e2 h)) env = Inr False \<and>
      Evaluate X (fst (operator_lt X e1 e2 h)) env = Inr False \<and>
      Evaluate X (fst (operator_leq X e1 e2 h)) env = Inr True \<and>
      Evaluate X (fst (operator_gt X e1 e2 h)) env = Inr False \<and>
      Evaluate X (fst (operator_geq X e1 e2 h)) env = Inr True) \<and>
   (v1 = v2 \<longrightarrow> \<not> double_less v1 v2 \<and> \<not> double_greater v1 v2) \<and>
   (v1 = v2 \<and> v1 \<noteq> NaN \<longrightarrow>
      double_eq v1 v2 \<and> double_less_eq v1 v2 \<and> double_greater_eq v1 v2) \<and>
   (Evaluate X f1 env = Inr b1 \<and> Evaluate X f2 env = Inr b2 \<longrightarrow>
      Evaluate X (fst (operator_and X f1 f2 h)) env = Inr (b1 \<and> b2) \<and>
      Evaluate X (fst (operator_or X f1 f2 h)) env = Inr (b1 \<or> b2)) \<and>
   (Evaluate X f env = Inr b \<longrightarrow>
      Evaluate X (fst (operator_not X f h)) env = Inr (\<not> b))"
proof -
  have const: "Evaluate X (fst (operator_eq X e1 e2 h)) env = Inr True \<and>
      Evaluate X (fst (operator_neq X e1 e2 h)) env = Inr False \<and>
      Evaluate X (fst (operator_lt X e1 e2 h)) env = Inr False \<and>
      Evaluate X (fst (operator_leq X e1 e2 h)) env = Inr True \<and>
      Evaluate X (fst (operator_gt X e1 e2 h)) env = Inr False \<and>
      Evaluate X (fst (operator_geq X e1 e2 h)) env = Inr True"
    if "Expression_EqualTo X e1 e2"
    using that
    by (simp add: operator_eq_def operator_neq_def operator_lt_def operator_leq_def
          operator_gt_def operator_geq_def True_f_def False_f_def)
  have node: "Evaluate X (fst (operator_eq X e1 e2 h)) env = Inr (double_eq v1 v2) \<and>
      Evaluate X (fst (operator_neq X e1 e2 h)) env = Inr (double_neq v1 v2) \<and>
      Evaluate X (fst (operator_lt X e1 e2 h)) env = Inr (double_less v1 v2) \<and>
      Evaluate X (fst (operator_leq X e1 e2 h)) env = Inr (double_less_eq v1 v2) \<and>
      Evaluate X (fst (operator_gt X e1 e2 h)) env = Inr (double_greater v1 v2) \<and>
      Evaluate X (fst (operator_geq X e1 e2 h)) env = Inr (double_greater_eq v1 v2)"
    if "Expression_Evaluate X e1 env = Inr v1" and "Expression_Evaluate X e2 env = Inr v2"
      and "\<not> Expression_EqualTo X e1 e2"
    using that
    by (simp add: operator_eq_def operator_neq_def operator_lt_def operator_leq_def
          operator_gt_def operator_geq_def make_shared_simp Evaluate_operands_def)
  have rel: "Evaluate X (fst (operator_eq X e1 e2 h)) env = Inr (double_eq v1 v2) \<and>
      Evaluate X (fst (operator_neq X e1 e2 h)) env = Inr (double_neq v1 v2)"
    if ev: "Expression_Evaluate X e1 env = Inr v1" "Expression_Evaluate X e2 env = Inr v2"
      and eq: "Expression_EqualTo X e1 e2 \<longrightarrow> double_eq v1 v2"
    using const node [OF ev] eq by (cases "Expression_EqualTo X e1 e2") (simp_all add: double_neq_def)
  have lt: "Evaluate X (fst (operator_lt X e1 e2 h)) env = Inr (double_less v1 v2)"
    if ev: "Expression_Evaluate X e1 env = Inr v1" "Expression_Evaluate X e2 env = Inr v2"
      and eq: "Expression_EqualTo X e1 e2 \<longrightarrow> \<not> double_less v1 v2"
    using const node [OF ev] eq by (cases "Expression_EqualTo X e1 e2") simp_all
  have leq: "Evaluate X (fst (operator_leq X e1 e2 h)) env = Inr (double_less_eq v1 v2)"
    if ev: "Expression_Evaluate X e1 env = Inr v1" "Expression_Evaluate X e2 env = Inr v2"
      and eq: "Expression_EqualTo X e1 e2 \<longrightarrow> double_less_eq v1 v2"
    using const node [OF ev] eq by (cases "Expression_EqualTo X e1 e2") simp_all
  have gt: "Evaluate X (fst (operator_gt X e1 e2 h)) env = Inr (double_greater v1 v2)"
    if ev: "Expression_Evaluate X e1 env = Inr v1" "Expression_Evaluate X e2 env = Inr v2"
      and eq: "Expression_EqualTo X e1 e2 \<longrightarrow> \<not> double_greater v1 v2"
    using const node [OF ev] eq by (cases "Expression_EqualTo X e1 e2") simp_all
  have geq: "Evaluate X (fst (operator_geq X e1 e2 h)) env = Inr (double_greater_eq v1 v2)"
    if ev: "Expression_Evaluate X e1 env = Inr v1" "Expression_Evaluate X e2 env = Inr v2"
      and eq: "Expression_EqualTo X e1 e2 \<longrightarrow> double_greater_eq v1 v2"
    using const node [OF ev] eq by (cases "Expression_EqualTo X e1 e2") simp_all
  have same: "\<not> double_less v1 v2 \<and> \<not> double_greater v1 v2" if "v1 = v2"
    using that by (simp add: double_greater_def)
  have same_number: "double_eq v1 v2 \<and> double_less_eq v1 v2 \<and> double_greater_eq v1 v2"
    if "v1 = v2 \<and> v1 \<noteq> NaN"
    using that by (auto simp: double_eq_def double_less_eq_def double_greater_eq_def)
  have conn: "Evaluate X (fst (operator_and X f1 f2 h)) env = Inr (b1 \<and> b2) \<and>
      Evaluate X (fst (operator_or X f1 f2 h)) env = Inr (b1 \<or> b2)"
    if "Evaluate X f1 env = Inr b1" and "Evaluate X f2 env = Inr b2"
    using that Evaluate_constant [of f1 X env] Evaluate_constant [of f2 X env]
    by (auto simp: operator_and_def operator_or_def make_shared_simp True_f_def False_f_def)
  have neg: "Evaluate X (fst (operator_not X f h)) env = Inr (\<not> b)"
    if "Evaluate X f env = Inr b"
    using that Evaluate_constant [of f X env]
    by (auto simp: operator_not_def make_shared_simp True_f_def False_f_def)
  from rel lt leq gt geq const same same_number conn neg show ?thesis by blast
qed

theorem evaluation_consistency_witness:
  "Expression_Evaluate sample (Constant 1) [0 \<mapsto> Finite 2] = Inr (Finite 1) \<and>
   Expression_Evaluate sample (Var 0) [0 \<mapsto> Finite 2] = Inr (Finite 2) \<and>
   \<not> Expression_EqualTo sample (Constant 1) (Var 0) \<and>
   Evaluate sample (fst (operator_eq sample (Constant 1) (Var 0) sample_heap)) [0 \<mapsto> Finite 2]
     = Inr False \<and>
   Evaluate sample (fst (operator_lt sample (Constant 1) (Var 0) sample_heap)) [0 \<mapsto> Finite 2]
     = Inr True \<and>
   Expression_EqualTo sample (Var 0) (Var 0) \<and> double_eq (Finite 2) (Finite 2) \<and>
   Evaluate sample (fst (operator_leq sample (Var 0) (Var 0) sample_heap)) [0 \<mapsto> Finite 2]
     = Inr (double_less_eq (Finite 2) (Finite 2)) \<and>
   Expression_Evaluate sample (Var 0) [0 \<mapsto> NaN] = Inr NaN \<and>
   Evaluate sample (fst (operator_lt sample (Var 0) (Var 0) sample_heap)) [0 \<mapsto> NaN]
     = Inr (double_less NaN NaN) \<and>
   Evaluate sample (fst (operator_geq sample (Var 0) (Var 0) sample_heap)) [0 \<mapsto> NaN]
     = Inr True \<and>
   Evaluate sample (FormulaEq 4 3 (Var 0) (Constant 1)) [0 \<mapsto> Finite 2] = Inr False \<and>
   Evaluate sample (True_f sample) [0 \<mapsto> Finite 2] = Inr True \<and>
   Evaluate sample (fst (operator_and sample (FormulaEq 4 3 (Var 0) (Constant 1)) (True_f sample)
     sample_heap)) [0 \<mapsto> Finite 2] = Inr False \<and>
   Evaluate sample (fst (operator_or sample (FormulaEq 4 3 (Var 0) (Constant 1)) (True_f sample)
     sample_heap)) [0 \<mapsto> Finite 2] = Inr True \<and>
   Evaluate sample (fst (operator_not sample (FormulaEq 4 3 (Var 0) (Constant 1))
     sample_heap)) [0 \<mapsto> Finite 2] = Inr True"
proof -
  have e: "Expression_Evaluate sample (Constant 1) [0 \<mapsto> Finite 2] = Inr (Finite 1)"
    "Expression_Evaluate sample (Var 0) [0 \<mapsto> Finite 2] = Inr (Finite 2)"
    "\<not> Expression_EqualTo sample (Constant 1) (Var 0)"
    "Expression_EqualTo sample (Var 0) (Var 0)"
    "Expression_Evaluate sample (Var 0) [0 \<mapsto> NaN] = Inr NaN"
    by (simp_all add: sample_def)
  have f: "Evaluate sample (FormulaEq 4 3 (Var 0) (Constant 1)) [0 \<mapsto> Finite 2] = Inr False"
    "Evaluate sample (True_f sample) [0 \<mapsto> Finite 2] = Inr True"
    by (simp_all add: Evaluate_operands_def True_f_def double_eq_def sample_def)
  have d: "double_eq (Finite 2) (Finite 2)" "\<not> double_eq (Finite 1) (Finite 2)"
    "double_less (Finite 1) (Finite 2)"
    by (simp_all add: double_eq_def)
  note distinct = evaluation_consistency [where X = sample and ?e1.0 = "Constant 1"
      and env = "[0 \<mapsto> Finite 2]" and ?v1.0 = "Finite 1" and ?e2.0 = "Var 0"
      and ?v2.0 = "Finite 2" and ?f1.0 = "FormulaEq 4 3 (Var 0) (Constant 1)" and ?b1.0 = False
      and ?f2.0 = "True_f sample" and ?b2.0 = True
      and f = "FormulaEq 4 3 (Var 0) (Constant 1)" and b = False and h = sample_heap]
  note same = evaluation_consistency [where X = sample and ?e1.0 = "Var 0"
      and env = "[0 \<mapsto> Finite 2]" and ?v1.0 = "Finite 2" and ?e2.0 = "Var 0"
      and ?v2.0 = "Finite 2" and h = sample_heap]
  note nan = evaluation_consistency [where X = sample and ?e1.0 = "Var 0"
      and env = "[0 \<mapsto> NaN]" and ?v1.0 = NaN and ?e2.0 = "Var 0"
      and ?v2.0 = NaN and h = sample_heap]
  show ?thesis using distinct same nan e f d by simp
qed

subsection \<open>Missing bindings\<close>

lemma Evaluate_operands_fails:
  assumes "\<forall>e env. (\<exists>x \<in> Expression_GetVariables X e. env x = None)
             \<longrightarrow> (\<exists>err. Expression_Evaluate X e env = Inl err)"
    and "x \<in> Expression_GetVariables X e1 \<union> Expression_GetVariables X e2" and "env x = None"
  shows "\<exists>err. Evaluate_operands X e1 e2 env rel = Inl err"
proof -
  from assms have "(\<exists>err. Expression_Evaluate X e1 env = Inl err)
      \<or> (\<exists>err. Expression_Evaluate X e2 env = Inl err)"
    by blast
  then show ?thesis by (auto simp: Evaluate_operands_def split: sum.splits)
qed

lemma sample_needs_bindings:
  "\<forall>e env. (\<exists>x \<in> Expression_GetVariables sample e. env x = None)
     \<longrightarrow> (\<exists>err. Expression_Evaluate sample e env = Inl err)"
proof (intro allI impI)
  fix e :: Expression and env :: Environment
  assume "\<exists>x \<in> Expression_GetVariables sample e. env x = None"
  then show "\<exists>err. Expression_Evaluate sample e env = Inl err"
    by (cases e) (simp_all add: sample_def)
qed

lemma unskipped_variables_free: "unskipped_variables X f env \<subseteq> GetFreeVariables X f"
proof (induction f)
  case (FormulaAnd p hs f1 f2)
  then show ?case by (auto split: sum.splits if_splits)
next
  case (FormulaOr p hs f1 f2)
  then show ?case by (auto split: sum.splits if_splits)
qed simp_all

lemma unskipped_variable_fails:
  assumes "\<forall>e env. (\<exists>x \<in> Expression_GetVariables X e. env x = None)
             \<longrightarrow> (\<exists>err. Expression_Evaluate X e env = Inl err)"
  shows "x \<in> unskipped_variables X f env \<Longrightarrow> env x = None
         \<Longrightarrow> \<exists>err. Evaluate X f env = Inl err"
proof (induction f)
  case (FormulaAnd p hs f1 f2)
  then show ?case by (cases "Evaluate X f1 env") (auto split: if_splits)
next
  case (FormulaOr p hs f1 f2)
  then show ?case by (cases "Evaluate X f1 env") (auto split: if_splits)
next
  case (FormulaNot p hs f)
  then show ?case by (cases "Evaluate X f env") auto
qed (simp_all add: Evaluate_operands_fails [OF assms])

text \<open>
  Claim C9 as stated fails on a short-circuit: in \<open>and(2 < 1, x0 == 1)\<close> the variable
  \<open>x0\<close> is free, the empty environment does not bind it, and \<open>Evaluate\<close> returns
  false, because the left operand is false and the right one is never evaluated.
\<close>

theorem missing_binding_short_circuit_counterexample:
  "operator_and sample (FormulaLt 2 6 (Constant 2) (Constant 1)) (FormulaEq 3 3 (Var 0) (Constant 1))
     [FormulaEq 3 3 (Var 0) (Constant 1), FormulaLt 2 6 (Constant 2) (Constant 1),
      False_f sample, True_f sample]
   = (FormulaAnd 4 17 (FormulaLt 2 6 (Constant 2) (Constant 1)) (FormulaEq 3 3 (Var 0) (Constant 1)),
      [FormulaAnd 4 17 (FormulaLt 2 6 (Constant 2) (Constant 1)) (FormulaEq 3 3 (Var 0) (Constant 1)),
       FormulaEq 3 3 (Var 0) (Constant 1), FormulaLt 2 6 (Constant 2) (Constant 1),
       False_f sample, True_f sample]) \<and>
   0 \<in> GetFreeVariables sample
     (FormulaAnd 4 17 (FormulaLt 2 6 (Constant 2) (Constant 1)) (FormulaEq 3 3 (Var 0) (Constant 1))) \<and>
   (Map.empty :: Environment) 0 = None \<and>
   Evaluate sample
     (FormulaAnd 4 17 (FormulaLt 2 6 (Constant 2) (Constant 1)) (FormulaEq 3 3 (Var 0) (Constant 1)))
     Map.empty = Inr False"
  by (simp add: operator_and_def make_shared_simp FormulaCell_hash_def get_hash_def
        Evaluate_operands_def sample_def)


text \<open>
  Claim C9, amended. If \<open>env\<close> fails to bind a free variable of \<open>f\<close> that evaluation
  does not skip, then \<open>f.Evaluate(env)\<close> fails: it returns an error and no boolean.
  Evaluation skips the variables of the right operand of an \<open>And\<close> node whose left
  operand has evaluated to false, and of the right operand of an \<open>Or\<close> node whose
  left operand has evaluated to true, and no others. So whenever \<open>f.Evaluate(env)\<close>
  returns a boolean although \<open>env\<close> fails to bind a free variable, that variable
  occurs only in operands that were skipped. (\<open>Expression::Evaluate\<close> is taken to
  fail on an expression with an unbound variable.)
\<close>

theorem missing_binding_fails:
  assumes "\<forall>e env. (\<exists>x \<in> Expression_GetVariables X e. env x = None)
             \<longrightarrow> (\<exists>err. Expression_Evaluate X e env = Inl err)"
  shows "unskipped_variables X f env \<subseteq> GetFreeVariables X f \<and>
         (x \<in> unskipped_variables X f env \<and> env x = None
            \<longrightarrow> (\<exists>err. Evaluate X f env = Inl err)) \<and>
         (x \<in> GetFreeVariables X f \<and> env x = None \<and> Evaluate X f env = Inr b
            \<longrightarrow> x \<notin> unskipped_variables X f env)"
  using unskipped_variables_free [of X f env] unskipped_variable_fails [OF assms, of x f env]
  by auto

theorem missing_binding_fails_witness:
  "0 \<in> unskipped_variables sample
     (FormulaOr 6 32
        (FormulaAnd 4 20 (FormulaLt 2 6 (Constant 2) (Constant 1)) (FormulaLt 3 6 (Constant 3) (Constant 4)))
        (FormulaEq 5 3 (Var 0) (Constant 1))) Map.empty \<and>
   (Map.empty :: Environment) 0 = None \<and>
   Evaluate sample
     (FormulaOr 6 32
        (FormulaAnd 4 20 (FormulaLt 2 6 (Constant 2) (Constant 1)) (FormulaLt 3 6 (Constant 3) (Constant 4)))
        (FormulaEq 5 3 (Var 0) (Constant 1))) Map.empty
     = Inl (runtime_error ''variable not in environment'') \<and>
   0 \<in> unskipped_variables sample
     (FormulaOr 6 32 (FormulaEq 5 3 (Var 0) (Constant 1))
        (FormulaAnd 4 20 (FormulaLt 2 6 (Constant 2) (Constant 1)) (FormulaLt 3 6 (Constant 3) (Constant 4))))
     Map.empty \<and>
   Evaluate sample
     (FormulaOr 6 32 (FormulaEq 5 3 (Var 0) (Constant 1))
        (FormulaAnd 4 20 (FormulaLt 2 6 (Constant 2) (Constant 1)) (FormulaLt 3 6 (Constant 3) (Constant 4))))
     Map.empty
     = Inl (runtime_error ''variable not in environment'') \<and>
   1 \<in> unskipped_variables sample
     (FormulaAnd 5 16 (FormulaEq 4 3 (Var 0) (Constant 1)) (FormulaEq 2 5 (Var 0) (Var 1)))
     [0 \<mapsto> Finite 1] \<and>
   [0 \<mapsto> Finite 1] (1 :: nat) = None \<and>
   Evaluate sample
     (FormulaAnd 5 16 (FormulaEq 4 3 (Var 0) (Constant 1)) (FormulaEq 2 5 (Var 0) (Var 1)))
     [0 \<mapsto> Finite 1]
     = Inl (runtime_error ''variable not in environment'') \<and>
   0 \<in> GetFreeVariables sample
     (FormulaAnd 4 17 (FormulaLt 2 6 (Constant 2) (Constant 1)) (FormulaEq 3 3 (Var 0) (Constant 1))) \<and>
   Evaluate sample
     (FormulaAnd 4 17 (FormulaLt 2 6 (Constant 2) (Constant 1)) (FormulaEq 3 3 (Var 0) (Constant 1)))
     Map.empty = Inr False \<and>
   0 \<notin> unskipped_variables sample
     (FormulaAnd 4 17 (FormulaLt 2 6 (Constant 2) (Constant 1)) (FormulaEq 3 3 (Var 0) (Constant 1)))
     Map.empty"
proof -
  have d: "0 \<in> GetFreeVariables sample
     (FormulaAnd 4 17 (FormulaLt 2 6 (Constant 2) (Constant 1)) (FormulaEq 3 3 (Var 0) (Constant 1)))"
    "Evaluate sample
     (FormulaAnd 4 17 (FormulaLt 2 6 (Constant 2) (Constant 1)) (FormulaEq 3 3 (Var 0) (Constant 1)))
     Map.empty = Inr False"
    by (simp_all add: Evaluate_operands_def sample_def)
  have a: "0 \<in> unskipped_variables sample
     (FormulaOr 6 32
        (FormulaAnd 4 20 (FormulaLt 2 6 (Constant 2) (Constant 1)) (FormulaLt 3 6 (Constant 3) (Constant 4)))
        (FormulaEq 5 3 (Var 0) (Constant 1))) Map.empty"
    "0 \<in> unskipped_variables sample
     (FormulaOr 6 32 (FormulaEq 5 3 (Var 0) (Constant 1))
        (FormulaAnd 4 20 (FormulaLt 2 6 (Constant 2) (Constant 1)) (FormulaLt 3 6 (Constant 3) (Constant 4))))
     Map.empty"
    "1 \<in> unskipped_variables sample
     (FormulaAnd 5 16 (FormulaEq 4 3 (Var 0) (Constant 1)) (FormulaEq 2 5 (Var 0) (Var 1)))
     [0 \<mapsto> Finite 1]"
    by (simp_all add: Evaluate_operands_def double_eq_def sample_def)
  have b: "(Map.empty :: Environment) 0 = None" "[0 \<mapsto> Finite 1] (1 :: nat) = None"
    by simp_all
  have c: "Evaluate sample
     (FormulaOr 6 32
        (FormulaAnd 4 20 (FormulaLt 2 6 (Constant 2) (Constant 1)) (FormulaLt 3 6 (Constant 3) (Constant 4)))
        (FormulaEq 5 3 (Var 0) (Constant 1))) Map.empty
     = Inl (runtime_error ''variable not in environment'')"
    "Evaluate sample
     (FormulaOr 6 32 (FormulaEq 5 3 (Var 0) (Constant 1))
        (FormulaAnd 4 20 (FormulaLt 2 6 (Constant 2) (Constant 1)) (FormulaLt 3 6 (Constant 3) (Constant 4))))
     Map.empty
     = Inl (runtime_error ''variable not in environment'')"
    "Evaluate sample
     (FormulaAnd 5 16 (FormulaEq 4 3 (Var 0) (Constant 1)) (FormulaEq 2 5 (Var 0) (Var 1)))
     [0 \<mapsto> Finite 1]
     = Inl (runtime_error ''variable not in environment'')"
    by (simp_all add: Evaluate_operands_def double_eq_def sample_def)
  from missing_binding_fails [OF sample_needs_bindings,
      of "FormulaAnd 5 16 (FormulaEq 4 3 (Var 0) (Constant 1)) (FormulaEq 2 5 (Var 0) (Var 1))"
        "[0 \<mapsto> Finite 1]" 1]
    missing_binding_fails [OF sample_needs_bindings,
      of "FormulaAnd 4 17 (FormulaLt 2 6 (Constant 2) (Constant 1)) (FormulaEq 3 3 (Var 0) (Constant 1))"
        Map.empty 0 False]
    a b c d
  show ?thesis by simp
qed

end
